theory Spec2Isabelle
  imports Complex_Main "HOL-Library.Word"
begin

section \<open>HyTools-lite: raster handle and traversal cursor (base.py)\<close>

subsection \<open>Values, errors, arrays\<close>

text \<open>
  Raster elements are fixed-width numbers; an element is kept as the list of its bytes in
  storage order, so that \<open>ndarray.byteswap\<close> is the reversal of every element.
\<close>

type_synonym byte = "8 word"
type_synonym elem = "byte list"

datatype pyerror =
    NameError string
  | UnboundLocalError string
  | TypeError
  | AttributeError
  | KeyError
  | IndexError
  | ValueError
  | OSError

text \<open>The objects a module-level name of base.py can be bound to.\<close>

datatype pyobj = PyStr string | PyModule string | PyFunction string | PyClass string

datatype ndarray =
    Array1 "elem list"
  | Array2 "elem list list"
  | Array3 "elem list list list"

fun byteswap :: "ndarray \<Rightarrow> ndarray" where
  "byteswap (Array1 xs) = Array1 (map rev xs)"
| "byteswap (Array2 xs) = Array2 (map (map rev) xs)"
| "byteswap (Array3 xs) = Array3 (map (map (map rev)) xs)"

text \<open>Python truthiness of an optional string argument (\<open>if mask:\<close>).\<close>

fun truthy :: "string option \<Rightarrow> bool" where
  "truthy None = False"
| "truthy (Some s) = (s \<noteq> [])"

text \<open>
  An integer index into a dimension of size \<open>n\<close>, as numpy and h5py resolve it: a negative
  index counts from the end, anything outside raises.
\<close>

definition py_index :: "nat \<Rightarrow> int \<Rightarrow> pyerror + nat" where
  "py_index n i =
     (let j = (if i < 0 then i + int n else i)
      in if 0 \<le> j \<and> j < int n then Inr (nat j) else Inl IndexError)"

text \<open>The positions selected by the slice \<open>start:stop\<close> on a dimension of size \<open>n\<close>.\<close>

definition slice_clip :: "nat \<Rightarrow> int \<Rightarrow> nat" where
  "slice_clip n i = (if i < 0 then nat (max 0 (i + int n)) else nat (min i (int n)))"

definition py_slice :: "nat \<Rightarrow> int \<Rightarrow> int \<Rightarrow> nat list" where
  "py_slice n start stop = [slice_clip n start ..< slice_clip n stop]"

text \<open>
  \<open>band[m]\<close> for a 2-D band and a 2-D boolean array. numpy compares the two shapes axis
  by axis, skipping an axis on which the boolean array has size 0, and raises when they
  differ; the selected elements come out in row-major order. An array without rows is
  taken to have no columns.
\<close>

definition bool_index :: "elem list list \<Rightarrow> bool list list \<Rightarrow> pyerror + ndarray" where
  "bool_index rows m =
     (if m = [] \<or>
         (length m = length rows \<and> (list_all (\<lambda>r. r = []) m \<or> map length m = map length rows))
      then Inr (Array1 (map fst (filter snd (zip (concat rows) (concat m)))))
      else Inl IndexError)"

subsection \<open>Float64 values\<close>

text \<open>
  A binary64 value is a finite real, an infinity or NaN; the finite values a double can
  hold are those that rounding leaves unchanged. An arithmetic result is the exact
  result rounded to the nearest value with 53 significant bits and exponent at least
  -1074, ties to even, and an infinity when that is 2^1024 or more in magnitude. The two
  zeros are not told apart.
\<close>

datatype f64 = Finite real | PInf | MInf | NaN

definition round_even :: "real \<Rightarrow> int" where
  "round_even q =
     (let f = \<lfloor>q\<rfloor> in
      if q - of_int f < 1 / 2 then f
      else if q - of_int f > 1 / 2 then f + 1
      else if even f then f else f + 1)"

definition round64 :: "real \<Rightarrow> f64" where
  "round64 x =
     (if x = 0 then Finite 0
      else
        (let e = max (\<lfloor>log 2 \<bar>x\<bar>\<rfloor> - 52) (- 1074);
             y = of_int (round_even (x / 2 powr of_int e)) * 2 powr of_int e
         in if \<bar>y\<bar> \<ge> 2 ^ 1024 then (if x > 0 then PInf else MInf) else Finite y))"

text \<open>Subtraction, absolute value and the comparisons, which are false on NaN.\<close>

fun fsub :: "f64 \<Rightarrow> f64 \<Rightarrow> f64" where
  "fsub NaN b = NaN"
| "fsub a NaN = NaN"
| "fsub (Finite a) (Finite b) = round64 (a - b)"
| "fsub PInf PInf = NaN"
| "fsub MInf MInf = NaN"
| "fsub PInf b = PInf"
| "fsub MInf b = MInf"
| "fsub (Finite a) PInf = MInf"
| "fsub (Finite a) MInf = PInf"

fun fabs :: "f64 \<Rightarrow> f64" where
  "fabs (Finite a) = Finite \<bar>a\<bar>"
| "fabs PInf = PInf"
| "fabs MInf = PInf"
| "fabs NaN = NaN"

fun fless :: "f64 \<Rightarrow> f64 \<Rightarrow> bool" where
  "fless NaN b = False"
| "fless a NaN = False"
| "fless (Finite a) (Finite b) = (a < b)"
| "fless a MInf = False"
| "fless MInf b = True"
| "fless PInf b = False"
| "fless (Finite a) PInf = True"

definition fle :: "f64 \<Rightarrow> f64 \<Rightarrow> bool" where
  "fle a b = (a \<noteq> NaN \<and> b \<noteq> NaN \<and> \<not> fless b a)"

text \<open>\<open>ndarray.max()\<close> and \<open>ndarray.min()\<close> of a non-empty array: NaN if it holds one.\<close>

fun amax :: "f64 list \<Rightarrow> f64" where
  "amax [] = NaN"
| "amax [x] = x"
| "amax (x # y # ys) =
     (let m = amax (y # ys) in if x = NaN \<or> m = NaN then NaN else if fless x m then m else x)"

fun amin :: "f64 list \<Rightarrow> f64" where
  "amin [] = NaN"
| "amin [x] = x"
| "amin (x # y # ys) =
     (let m = amin (y # ys) in if x = NaN \<or> m = NaN then NaN else if fless m x then m else x)"

text \<open>
  \<open>np.argmin\<close>: the index of the first NaN if there is one, otherwise the first index
  of the least value.
\<close>

fun argmin :: "f64 list \<Rightarrow> nat" where
  "argmin [] = 0"
| "argmin [x] = 0"
| "argmin (x # y # ys) =
     (let i = argmin (y # ys); m = (y # ys) ! i in
      if x = NaN then 0 else if m = NaN then Suc i else if fless m x then Suc i else 0)"

text \<open>
  \<open>self.wavelengths\<close> is the constructor's Python list or the array set when a file is
  opened.
\<close>

datatype pyseq = PyList "f64 list" | NdArray "f64 list"

subsection \<open>The data handle and the platform\<close>

text \<open>
  \<open>self.data\<close> is either a memory map over the flat element buffer of a binary file,
  with the shape it was opened with, or the 3-D (line, column, band) dataset of a
  container file with its shape.
\<close>

datatype data_handle =
    Memmap "(nat \<times> nat \<times> nat) option" "nat \<Rightarrow> elem"
  | Dataset "nat \<times> nat \<times> nat" "nat \<Rightarrow> nat \<Rightarrow> nat \<Rightarrow> elem"

text \<open>
  An open container file: the dataset found under
  \<open>[base_key]["Reflectance"]["Reflectance_Data"]\<close>, if there is one.
\<close>

type_synonym hdf_file = "string \<Rightarrow> ((nat \<times> nat \<times> nat) \<times> (nat \<Rightarrow> nat \<Rightarrow> nat \<Rightarrow> elem)) option"

text \<open>
  What base.py takes from outside the repository: \<open>sys.byteorder\<close>, \<open>np.memmap\<close>
  (file name, dtype, mode, shape, offset), \<open>h5py.File\<close> (file name) and
  \<open>os.path.basename(os.path.splitext(.)[0])\<close>, and numpy's \<open>!=\<close> between an element of
  the given dtype and the no-data value.
\<close>

record platform =
  byteorder :: string
  np_memmap :: "pyobj option \<Rightarrow> string option \<Rightarrow> string \<Rightarrow> (nat \<times> nat \<times> nat) option
                  \<Rightarrow> int \<Rightarrow> pyerror + (nat \<Rightarrow> elem)"
  h5py_File :: "pyobj option \<Rightarrow> pyerror + hdf_file"
  path_stem :: "pyobj option \<Rightarrow> pyerror + string"
  np_not_equal :: "string option \<Rightarrow> elem \<Rightarrow> real option \<Rightarrow> bool"

datatype interleave_tag = BSQ | BIL | BIP

subsection \<open>class HyTools\<close>

record hytools =
  anc_path :: "(string \<times> string) list"
  ancillary :: "(string \<times> string) list"
  bad_bands :: "bool list"
  bands :: "int option"
  base_key :: "string option"
  base_name :: "string option"
  brdf :: "(string \<times> string option) list"
  byte_order :: "int option"
  columns :: "int option"
  crs :: "string option"
  data :: "data_handle option"
  dtype :: "string option"
  endianness :: "string option"
  file_name :: "pyobj option"
  file_type :: "string option"
  fwhm :: "real list"
  hdf_obj :: "hdf_file option"
  interleave :: "interleave_tag option"
  lines :: "int option"
  map_info :: "string list option"
  mask_tbl :: "string \<rightharpoonup> bool list list"
  no_data :: "real option"
  offset :: int
  projection :: "string option"
  shape :: "(nat \<times> nat \<times> nat) option"
  topo :: "(string \<times> string option) list"
  ulx :: "real option"
  uly :: "real option"
  wavelength_units :: "string option"
  wavelengths :: pyseq

text \<open>\<open>HyTools.__init__\<close>\<close>

definition HyTools :: hytools where
  "HyTools = \<lparr>
     anc_path = [], ancillary = [], bad_bands = [], bands = None, base_key = None,
     base_name = None, brdf = [(''type'', None)], byte_order = None, columns = None,
     crs = None, data = None, dtype = None, endianness = None, file_name = None,
     file_type = None, fwhm = [], hdf_obj = None, interleave = None, lines = None,
     map_info = None, mask_tbl = Map.empty, no_data = None, offset = 0, projection = None,
     shape = None, topo = [(''type'', None)], ulx = None, uly = None,
     wavelength_units = None, wavelengths = PyList [] \<rparr>"

text \<open>
  \<open>load_data\<close>: acquires the data handle. For a container file the file object is stored
  before the dataset is looked up, so a failing lookup leaves \<open>hdf_obj\<close> set.
\<close>

definition load_data :: "platform \<Rightarrow> string \<Rightarrow> hytools \<Rightarrow> (pyerror + unit) \<times> hytools" where
  "load_data p mode self =
     (if file_type self = Some ''envi'' then
        (case np_memmap p (file_name self) (dtype self) mode (shape self) (offset self) of
           Inl e \<Rightarrow> (Inl e, self)
         | Inr buf \<Rightarrow> (Inr (), self\<lparr>data := Some (Memmap (shape self) buf)\<rparr>))
      else if file_type self = Some ''neon'' then
        (case h5py_File p (file_name self) of
           Inl e \<Rightarrow> (Inl e, self)
         | Inr f \<Rightarrow>
             (let self1 = self\<lparr>hdf_obj := Some f\<rparr> in
              case base_key self1 of
                None \<Rightarrow> (Inl TypeError, self1)
              | Some k \<Rightarrow>
                  (case f k of
                     None \<Rightarrow> (Inl KeyError, self1)
                   | Some (sh, d) \<Rightarrow> (Inr (), self1\<lparr>data := Some (Dataset sh d)\<rparr>))))
      else (Inr (), self))"

text \<open>\<open>close_data\<close>: \<open>self.hdf_obj.close()\<close> raises when \<open>hdf_obj\<close> is \<open>None\<close>.\<close>

definition close_data :: "hytools \<Rightarrow> (pyerror + unit) \<times> hytools" where
  "close_data self =
     (if file_type self = Some ''envi'' then (Inr (), self\<lparr>data := None\<rparr>)
      else if file_type self = Some ''neon'' then
        (case hdf_obj self of
           None \<Rightarrow> (Inl AttributeError, self)
         | Some f \<Rightarrow> (Inr (), self\<lparr>hdf_obj := None, data := None\<rparr>))
      else (Inr (), self\<lparr>data := None\<rparr>))"


subsection \<open>Reads on the container dataset\<close>

text \<open>
  The indexing expressions of the \<open>"neon"\<close> branches, on the (line, column, band)
  dataset: \<open>data[:,:,index]\<close>, \<open>data[index,:,:]\<close>, \<open>data[:,index,:]\<close>,
  \<open>data[line,column,:]\<close> and \<open>data[line_start:line_end,col_start:col_end,:]\<close>.
  Indexing anything that is not the dataset raises.
\<close>

fun neon_band :: "int \<Rightarrow> data_handle option \<Rightarrow> pyerror + ndarray" where
  "neon_band index (Some (Dataset (L, C, B) d)) =
     (case py_index B index of
        Inl e \<Rightarrow> Inl e
      | Inr b \<Rightarrow> Inr (Array2 (map (\<lambda>l. map (\<lambda>c. d l c b) [0..<C]) [0..<L])))"
| "neon_band index _ = Inl TypeError"

fun neon_line :: "int \<Rightarrow> data_handle option \<Rightarrow> pyerror + ndarray" where
  "neon_line index (Some (Dataset (L, C, B) d)) =
     (case py_index L index of
        Inl e \<Rightarrow> Inl e
      | Inr l \<Rightarrow> Inr (Array2 (map (\<lambda>c. map (\<lambda>b. d l c b) [0..<B]) [0..<C])))"
| "neon_line index _ = Inl TypeError"

fun neon_column :: "int \<Rightarrow> data_handle option \<Rightarrow> pyerror + ndarray" where
  "neon_column index (Some (Dataset (L, C, B) d)) =
     (case py_index C index of
        Inl e \<Rightarrow> Inl e
      | Inr c \<Rightarrow> Inr (Array2 (map (\<lambda>l. map (\<lambda>b. d l c b) [0..<B]) [0..<L])))"
| "neon_column index _ = Inl TypeError"

text \<open>The loop \<open>for line,column in zip(lines,columns): pixels.append(data[line,column,:])\<close>.\<close>

fun neon_spectra ::
  "nat \<times> nat \<times> nat \<Rightarrow> (nat \<Rightarrow> nat \<Rightarrow> nat \<Rightarrow> elem) \<Rightarrow> (int \<times> int) list \<Rightarrow> pyerror + elem list list" where
  "neon_spectra sh d [] = Inr []"
| "neon_spectra (L, C, B) d ((line, column) # rest) =
     (case py_index L line of
        Inl e \<Rightarrow> Inl e
      | Inr l \<Rightarrow>
          (case py_index C column of
             Inl e \<Rightarrow> Inl e
           | Inr c \<Rightarrow>
               (case neon_spectra (L, C, B) d rest of
                  Inl e \<Rightarrow> Inl e
                | Inr ps \<Rightarrow> Inr (map (\<lambda>b. d l c b) [0..<B] # ps))))"

text \<open>
  \<open>np.array(pixels)\<close>: a list of equally long 1-D arrays becomes a 2-D array; the empty
  list becomes the 1-D array of shape (0,).
\<close>

fun np_array :: "elem list list \<Rightarrow> ndarray" where
  "np_array [] = Array1 []"
| "np_array ps = Array2 ps"

fun neon_pixels :: "int list \<Rightarrow> int list \<Rightarrow> data_handle option \<Rightarrow> pyerror + ndarray" where
  "neon_pixels ls cs (Some (Dataset sh d)) =
     (case neon_spectra sh d (zip ls cs) of
        Inl e \<Rightarrow> Inl e
      | Inr ps \<Rightarrow> Inr (np_array ps))"
| "neon_pixels ls cs _ = Inl TypeError"

fun neon_chunk :: "int \<Rightarrow> int \<Rightarrow> int \<Rightarrow> int \<Rightarrow> data_handle option \<Rightarrow> pyerror + ndarray" where
  "neon_chunk col_start col_end line_start line_end (Some (Dataset (L, C, B) d)) =
     Inr (Array3 (map (\<lambda>l. map (\<lambda>c. map (\<lambda>b. d l c b) [0..<B]) (py_slice C col_start col_end))
                     (py_slice L line_start line_end)))"
| "neon_chunk col_start col_end line_start line_end _ = Inl TypeError"

subsection \<open>The interleave codec (io/envi.py)\<close>

text \<open>
  Modelled from the spec: \<open>envi_read_band\<close>, \<open>envi_read_line\<close>, \<open>envi_read_column\<close>,
  \<open>envi_read_pixels\<close> and \<open>envi_read_chunk\<close> of \<open>io/envi.py\<close> are not among the sources.
  The spec (4.1) gives the flat index of the element (line, column, band) under each
  layout and the canonical shape of each result; the raster dimensions are read off the
  shape the buffer was mapped with, whose axes follow the layout. The spec leaves
  indices outside the raster undefined; here they raise.
\<close>

definition raster_dims :: "interleave_tag \<Rightarrow> nat \<times> nat \<times> nat \<Rightarrow> nat \<times> nat \<times> nat" where
  "raster_dims t sh =
     (case sh of (d0, d1, d2) \<Rightarrow>
        (case t of BSQ \<Rightarrow> (d1, d2, d0) | BIL \<Rightarrow> (d0, d2, d1) | BIP \<Rightarrow> (d0, d1, d2)))"

definition flat_index :: "interleave_tag \<Rightarrow> nat \<times> nat \<times> nat \<Rightarrow> nat \<Rightarrow> nat \<Rightarrow> nat \<Rightarrow> nat" where
  "flat_index t dims l c b =
     (case dims of (L, C, B) \<Rightarrow>
        (case t of
           BSQ \<Rightarrow> b * L * C + l * C + c
         | BIL \<Rightarrow> l * B * C + b * C + c
         | BIP \<Rightarrow> l * C * B + c * B + b))"

definition in_range :: "nat \<Rightarrow> int \<Rightarrow> pyerror + nat" where
  "in_range n i = (if 0 \<le> i \<and> i < int n then Inr (nat i) else Inl IndexError)"

text \<open>The raster a mapped buffer presents: its dimensions and its element at (l, c, b).\<close>

fun envi_view ::
  "data_handle option \<Rightarrow> interleave_tag option
     \<Rightarrow> pyerror + ((nat \<times> nat \<times> nat) \<times> (nat \<Rightarrow> nat \<Rightarrow> nat \<Rightarrow> elem))" where
  "envi_view (Some (Memmap (Some sh) buf)) (Some t) =
     Inr (raster_dims t sh, \<lambda>l c b. buf (flat_index t (raster_dims t sh) l c b))"
| "envi_view _ _ = Inl ValueError"

definition envi_read_band :: "int \<Rightarrow> data_handle option \<Rightarrow> interleave_tag option \<Rightarrow> pyerror + ndarray" where
  "envi_read_band index dat t =
     (case envi_view dat t of
        Inl e \<Rightarrow> Inl e
      | Inr ((L, C, B), g) \<Rightarrow>
          (case in_range B index of
             Inl e \<Rightarrow> Inl e
           | Inr b \<Rightarrow> Inr (Array2 (map (\<lambda>l. map (\<lambda>c. g l c b) [0..<C]) [0..<L]))))"

definition envi_read_line :: "int \<Rightarrow> data_handle option \<Rightarrow> interleave_tag option \<Rightarrow> pyerror + ndarray" where
  "envi_read_line index dat t =
     (case envi_view dat t of
        Inl e \<Rightarrow> Inl e
      | Inr ((L, C, B), g) \<Rightarrow>
          (case in_range L index of
             Inl e \<Rightarrow> Inl e
           | Inr l \<Rightarrow> Inr (Array2 (map (\<lambda>c. map (\<lambda>b. g l c b) [0..<B]) [0..<C]))))"

definition envi_read_column :: "int \<Rightarrow> data_handle option \<Rightarrow> interleave_tag option \<Rightarrow> pyerror + ndarray" where
  "envi_read_column index dat t =
     (case envi_view dat t of
        Inl e \<Rightarrow> Inl e
      | Inr ((L, C, B), g) \<Rightarrow>
          (case in_range C index of
             Inl e \<Rightarrow> Inl e
           | Inr c \<Rightarrow> Inr (Array2 (map (\<lambda>l. map (\<lambda>b. g l c b) [0..<B]) [0..<L]))))"

fun envi_spectra ::
  "nat \<times> nat \<times> nat \<Rightarrow> (nat \<Rightarrow> nat \<Rightarrow> nat \<Rightarrow> elem) \<Rightarrow> (int \<times> int) list \<Rightarrow> pyerror + elem list list" where
  "envi_spectra sh g [] = Inr []"
| "envi_spectra (L, C, B) g ((line, column) # rest) =
     (case in_range L line of
        Inl e \<Rightarrow> Inl e
      | Inr l \<Rightarrow>
          (case in_range C column of
             Inl e \<Rightarrow> Inl e
           | Inr c \<Rightarrow>
               (case envi_spectra (L, C, B) g rest of
                  Inl e \<Rightarrow> Inl e
                | Inr ps \<Rightarrow> Inr (map (\<lambda>b. g l c b) [0..<B] # ps))))"

definition envi_read_pixels ::
  "int list \<Rightarrow> int list \<Rightarrow> data_handle option \<Rightarrow> interleave_tag option \<Rightarrow> pyerror + ndarray" where
  "envi_read_pixels ls cs dat t =
     (case envi_view dat t of
        Inl e \<Rightarrow> Inl e
      | Inr (dims, g) \<Rightarrow>
          (if length ls \<noteq> length cs then Inl IndexError
           else (case envi_spectra dims g (zip ls cs) of
                   Inl e \<Rightarrow> Inl e
                 | Inr ps \<Rightarrow> Inr (Array2 ps))))"

definition envi_read_chunk ::
  "int \<Rightarrow> int \<Rightarrow> int \<Rightarrow> int \<Rightarrow> data_handle option \<Rightarrow> interleave_tag option \<Rightarrow> pyerror + ndarray" where
  "envi_read_chunk col_start col_end line_start line_end dat t =
     (case envi_view dat t of
        Inl e \<Rightarrow> Inl e
      | Inr ((L, C, B), g) \<Rightarrow>
          (if 0 \<le> col_start \<and> col_start \<le> col_end \<and> col_end \<le> int C \<and>
              0 \<le> line_start \<and> line_start \<le> line_end \<and> line_end \<le> int L
           then Inr (Array3 (map (\<lambda>l. map (\<lambda>c. map (\<lambda>b. g l c b) [0..<B])
                                           [nat col_start ..< nat col_end])
                                [nat line_start ..< nat line_end]))
           else Inl IndexError))"


subsection \<open>HyTools: read operations\<close>

text \<open>
  The five read methods have one body: \<open>load_data()\<close>, the read of the active backend
  (with \<open>byteswap()\<close> after a flat-binary read when \<open>self.endianness != sys.byteorder\<close>),
  \<open>close_data()\<close>, then the use of the local variable. No branch binds the local when
  \<open>file_type\<close> is neither \<open>"neon"\<close> nor \<open>"envi"\<close>, and its use raises. Nothing catches an
  exception: a failing step ends the call with the handle as it is at that point.
\<close>

definition backend_read ::
  "platform \<Rightarrow> string \<Rightarrow> (data_handle option \<Rightarrow> pyerror + ndarray)
     \<Rightarrow> (data_handle option \<Rightarrow> interleave_tag option \<Rightarrow> pyerror + ndarray)
     \<Rightarrow> hytools \<Rightarrow> (pyerror + ndarray) \<times> hytools" where
  "backend_read p var neon envi self =
     (case load_data p ''r'' self of
        (Inl e, s1) \<Rightarrow> (Inl e, s1)
      | (Inr u, s1) \<Rightarrow>
          (case (if file_type s1 = Some ''neon'' then
                   (case neon (data s1) of Inl e \<Rightarrow> Inl e | Inr a \<Rightarrow> Inr (Some a))
                 else if file_type s1 = Some ''envi'' then
                   (case envi (data s1) (interleave s1) of
                      Inl e \<Rightarrow> Inl e
                    | Inr a \<Rightarrow>
                        Inr (Some (if endianness s1 \<noteq> Some (byteorder p) then byteswap a else a)))
                 else Inr None) of
             Inl e \<Rightarrow> (Inl e, s1)
           | Inr v \<Rightarrow>
               (case close_data s1 of
                  (Inl e, s2) \<Rightarrow> (Inl e, s2)
                | (Inr u, s2) \<Rightarrow>
                    (case v of
                       None \<Rightarrow> (Inl (UnboundLocalError var), s2)
                     | Some a \<Rightarrow> (Inr a, s2)))))"

text \<open>\<open>band[self.mask[mask]]\<close>\<close>

definition index_by_mask :: "hytools \<Rightarrow> string \<Rightarrow> ndarray \<Rightarrow> pyerror + ndarray" where
  "index_by_mask self name band =
     (case mask_tbl self name of
        None \<Rightarrow> Inl KeyError
      | Some m \<Rightarrow>
          (case band of
             Array2 rows \<Rightarrow> bool_index rows m
           | _ \<Rightarrow> Inl IndexError))"

definition get_band :: "platform \<Rightarrow> int \<Rightarrow> string option \<Rightarrow> hytools \<Rightarrow> (pyerror + ndarray) \<times> hytools" where
  "get_band p index mask' self =
     (case backend_read p ''band'' (neon_band index) (envi_read_band index) self of
        (Inl e, s) \<Rightarrow> (Inl e, s)
      | (Inr band, s) \<Rightarrow>
          (if truthy mask' then
             (case mask' of
                None \<Rightarrow> (Inr band, s)
              | Some name \<Rightarrow> (index_by_mask s name band, s))
           else (Inr band, s)))"

definition get_pixels :: "platform \<Rightarrow> int list \<Rightarrow> int list \<Rightarrow> hytools \<Rightarrow> (pyerror + ndarray) \<times> hytools" where
  "get_pixels p lns cols self =
     backend_read p ''pixels'' (neon_pixels lns cols) (envi_read_pixels lns cols) self"

definition get_line :: "platform \<Rightarrow> int \<Rightarrow> hytools \<Rightarrow> (pyerror + ndarray) \<times> hytools" where
  "get_line p index self =
     backend_read p ''line'' (neon_line index) (envi_read_line index) self"

definition get_column :: "platform \<Rightarrow> int \<Rightarrow> hytools \<Rightarrow> (pyerror + ndarray) \<times> hytools" where
  "get_column p index self =
     backend_read p ''column'' (neon_column index) (envi_read_column index) self"

definition get_chunk ::
  "platform \<Rightarrow> int \<Rightarrow> int \<Rightarrow> int \<Rightarrow> int \<Rightarrow> hytools \<Rightarrow> (pyerror + ndarray) \<times> hytools" where
  "get_chunk p col_start col_end line_start line_end self =
     backend_read p ''chunk'' (neon_chunk col_start col_end line_start line_end)
       (envi_read_chunk col_start col_end line_start line_end) self"

definition set_mask :: "bool list list \<Rightarrow> string \<Rightarrow> hytools \<Rightarrow> hytools" where
  "set_mask m name self = self\<lparr>mask_tbl := (mask_tbl self)(name \<mapsto> m)\<rparr>"

text \<open>A call of one of the five read methods, and its execution on a handle.\<close>

datatype read_call =
    Band int "string option"
  | Line int
  | Column int
  | Pixels "int list" "int list"
  | Chunk int int int int

fun perform :: "platform \<Rightarrow> read_call \<Rightarrow> hytools \<Rightarrow> (pyerror + ndarray) \<times> hytools" where
  "perform p (Band index mask') self = get_band p index mask' self"
| "perform p (Line index) self = get_line p index self"
| "perform p (Column index) self = get_column p index self"
| "perform p (Pixels lns cols) self = get_pixels p lns cols self"
| "perform p (Chunk col_start col_end line_start line_end) self =
     get_chunk p col_start col_end line_start line_end self"

subsection \<open>HyTools: wavelength resolution\<close>

text \<open>
  \<open>wave_to_band\<close> and \<open>get_wave\<close>; the last component is what was printed. A Python
  list has no \<open>max\<close>, and the extrema of an empty array raise.
\<close>

definition wave_to_band :: "f64 \<Rightarrow> hytools \<Rightarrow> (pyerror + nat option) \<times> string list" where
  "wave_to_band wave self =
     (case wavelengths self of
        PyList xs \<Rightarrow> (Inl AttributeError, [])
      | NdArray ws \<Rightarrow>
          (if ws = [] then (Inl ValueError, [])
           else if fless (amax ws) wave \<or> fless wave (amin ws)
           then (Inr None, [''Input wavelength outside image range!''])
           else (Inr (Some (argmin (map (\<lambda>w. fabs (fsub w wave)) ws))), [])))"

definition get_wave ::
  "platform \<Rightarrow> f64 \<Rightarrow> string option \<Rightarrow> hytools \<Rightarrow> (pyerror + ndarray option) \<times> hytools \<times> string list" where
  "get_wave p wave mask' self =
     (case wavelengths self of
        PyList xs \<Rightarrow> (Inl AttributeError, self, [])
      | NdArray ws \<Rightarrow>
          (if ws = [] then (Inl ValueError, self, [])
           else if fless (amax ws) wave \<or> fless wave (amin ws)
           then (Inr None, self, [''Input wavelength outside wavelength range!''])
           else
             (let band_num = argmin (map (\<lambda>w. fabs (fsub w wave)) ws) in
              case get_band p (int band_num) mask' self of
                (Inl e, s) \<Rightarrow> (Inl e, s, [])
              | (Inr band, s) \<Rightarrow> (Inr (Some band), s, []))))"

subsection \<open>HyTools.read_file\<close>

text \<open>
  The names base.py binds at module level (its imports and its two classes). The body of
  \<open>read_file\<close> reads the name \<open>file_name\<close>, which is neither a parameter nor assigned in
  the body, so it is looked up among the module's globals and then the builtins, and
  raises \<open>NameError\<close> when it is in neither.
\<close>

definition base_globals :: "(string \<times> pyobj) list" where
  "base_globals =
     [(''os'', PyModule ''os''), (''sys'', PyModule ''sys''),
      (''warnings'', PyModule ''warnings''), (''h5py'', PyModule ''h5py''),
      (''np'', PyModule ''numpy''),
      (''envi_read_band'', PyFunction ''envi_read_band''),
      (''envi_read_pixels'', PyFunction ''envi_read_pixels''),
      (''envi_read_line'', PyFunction ''envi_read_line''),
      (''envi_read_column'', PyFunction ''envi_read_column''),
      (''envi_read_chunk'', PyFunction ''envi_read_chunk''),
      (''open_envi'', PyFunction ''open_envi''),
      (''parse_envi_header'', PyFunction ''parse_envi_header''),
      (''envi_header_from_neon'', PyFunction ''envi_header_from_neon''),
      (''open_neon'', PyFunction ''open_neon''),
      (''HyTools'', PyClass ''HyTools''), (''Iterator'', PyClass ''Iterator'')]"

definition py_builtins :: "string list" where
  "py_builtins =
     [''abs'', ''aiter'', ''all'', ''anext'', ''any'', ''ascii'', ''bin'', ''bool'',
      ''breakpoint'', ''bytearray'', ''bytes'', ''callable'', ''chr'', ''classmethod'',
      ''compile'', ''complex'', ''delattr'', ''dict'', ''dir'', ''divmod'', ''enumerate'',
      ''eval'', ''exec'', ''filter'', ''float'', ''format'', ''frozenset'', ''getattr'',
      ''globals'', ''hasattr'', ''hash'', ''help'', ''hex'', ''id'', ''input'', ''int'',
      ''isinstance'', ''issubclass'', ''iter'', ''len'', ''list'', ''locals'', ''map'',
      ''max'', ''memoryview'', ''min'', ''next'', ''object'', ''oct'', ''open'', ''ord'',
      ''pow'', ''print'', ''property'', ''range'', ''repr'', ''reversed'', ''round'',
      ''set'', ''setattr'', ''slice'', ''sorted'', ''staticmethod'', ''str'', ''sum'',
      ''super'', ''tuple'', ''type'', ''vars'', ''zip'']"

definition load_global :: "(string \<times> pyobj) list \<Rightarrow> string \<Rightarrow> pyerror + pyobj" where
  "load_global g name =
     (case map_of g name of
        Some v \<Rightarrow> Inr v
      | None \<Rightarrow>
          (if name \<in> set py_builtins then Inr (PyFunction name) else Inl (NameError name)))"

text \<open>\<open>self.get_band(0) != self.no_data\<close>, element by element.\<close>

fun not_equal :: "platform \<Rightarrow> string option \<Rightarrow> ndarray \<Rightarrow> real option \<Rightarrow> bool list list" where
  "not_equal p dt (Array2 rows) v = map (map (\<lambda>x. np_not_equal p dt x v)) rows"
| "not_equal p dt (Array1 xs) v = [map (\<lambda>x. np_not_equal p dt x v) xs]"
| "not_equal p dt (Array3 xs) v = []"

text \<open>
  \<open>read_file\<close>, over the global namespace \<open>g\<close> it runs in. \<open>open_envi\<close> (io/envi.py) and
  \<open>open_neon\<close> (io/neon.py) are not among the sources and are parameters. The result is
  the outcome, the handle and what was printed.
\<close>

definition read_file ::
  "platform \<Rightarrow> (string \<times> pyobj) list
     \<Rightarrow> (hytools \<Rightarrow> (string \<times> string) list option \<Rightarrow> bool \<Rightarrow> (pyerror + unit) \<times> hytools)
     \<Rightarrow> (hytools \<Rightarrow> (pyerror + unit) \<times> hytools)
     \<Rightarrow> string \<Rightarrow> (string \<times> string) list option \<Rightarrow> bool \<Rightarrow> hytools
     \<Rightarrow> (pyerror + unit) \<times> hytools \<times> string list" where
  "read_file p g open_envi open_neon file_type' anc_path' ext self =
     (case load_global g ''file_name'' of
        Inl e \<Rightarrow> (Inl e, self, [])
      | Inr fname \<Rightarrow>
          (let s1 = self\<lparr>file_name := Some fname, file_type := Some file_type'\<rparr>;
               (r, s2, out) =
                 (if file_type' = ''envi'' then
                    (case open_envi s1 anc_path' ext of (r, s) \<Rightarrow> (r, s, []))
                  else if file_type' = ''neon'' then
                    (case open_neon s1 of (r, s) \<Rightarrow> (r, s, []))
                  else (Inr (), s1, [''Unrecognized file type.'']))
           in case r of
                Inl e \<Rightarrow> (Inl e, s2, out)
              | Inr u \<Rightarrow>
                  (case get_band p 0 None s2 of
                     (Inl e, s3) \<Rightarrow> (Inl e, s3, out)
                   | (Inr band, s3) \<Rightarrow>
                       (let s4 = s3\<lparr>mask_tbl :=
                                      (mask_tbl s3)(''no_data'' \<mapsto> not_equal p (dtype s3) band (no_data s3))\<rparr>
                        in case path_stem p (file_name s4) of
                             Inl e \<Rightarrow> (Inl e, s4, out)
                           | Inr stem \<Rightarrow> (Inr (), s4\<lparr>base_name := Some stem\<rparr>, out)))))"

subsection \<open>class Iterator\<close>

text \<open>
  The cursor's own attributes. \<open>hy_obj\<close> is a reference to the handle, which the
  functions below take and return next to the cursor.
\<close>

record iterator =
  chunk_size :: "(int \<times> int) option"
  by_dim :: string
  current_column :: int
  current_line :: int
  current_band :: int
  complete :: bool

text \<open>\<open>Iterator.__init__\<close> and \<open>HyTools.iterate\<close>\<close>

definition Iterator :: "string \<Rightarrow> (int \<times> int) option \<Rightarrow> iterator" where
  "Iterator by' chunk_size' =
     \<lparr> chunk_size = chunk_size', by_dim = by', current_column = - 1, current_line = - 1,
       current_band = - 1, complete = False \<rparr>"

definition iterate :: "string \<Rightarrow> (int \<times> int) option \<Rightarrow> hytools \<Rightarrow> iterator \<times> hytools" where
  "iterate by' chunk_size' self = (Iterator by' chunk_size', self)"

text \<open>
  The chunk branch of \<open>read_next\<close> up to the call of \<open>get_chunk\<close>: the new cursor and the
  window asked for. Subscripting a missing \<open>chunk_size\<close> and comparing with a missing
  dimension raise, with the cursor as far as it was updated.
\<close>

definition next_chunk :: "hytools \<Rightarrow> iterator \<Rightarrow> (pyerror + read_call) \<times> iterator" where
  "next_chunk hy_obj self =
     (case (if current_column self = - 1
            then (Inr (), self\<lparr>current_column := current_column self + 1,
                               current_line := current_line self + 1\<rparr>)
            else (case chunk_size self of
                    None \<Rightarrow> (Inl TypeError, self)
                  | Some (cy, cx) \<Rightarrow> (Inr (), self\<lparr>current_column := current_column self + cx\<rparr>))) of
        (Inl e, s1) \<Rightarrow> (Inl e, s1)
      | (Inr u, s1) \<Rightarrow>
          (case columns hy_obj of
             None \<Rightarrow> (Inl TypeError, s1)
           | Some ncols \<Rightarrow>
               (case (if current_column s1 \<ge> ncols
                      then (case chunk_size s1 of
                              None \<Rightarrow> (Inl TypeError, s1\<lparr>current_column := 0\<rparr>)
                            | Some (cy, cx) \<Rightarrow>
                                (Inr (), s1\<lparr>current_column := 0,
                                            current_line := current_line s1 + cy\<rparr>))
                      else (Inr (), s1)) of
                  (Inl e, s2) \<Rightarrow> (Inl e, s2)
                | (Inr u, s2) \<Rightarrow>
                    (case chunk_size s2 of
                       None \<Rightarrow> (Inl TypeError, s2)
                     | Some (cy, cx) \<Rightarrow>
                         (case lines hy_obj of
                            None \<Rightarrow> (Inl TypeError, s2)
                          | Some nlines \<Rightarrow>
                              (let y_start = current_line s2;
                                   y_end = (if current_line s2 + cy \<ge> nlines then nlines
                                            else current_line s2 + cy);
                                   x_start = current_column s2;
                                   x_end = (if current_column s2 + cx \<ge> ncols then ncols
                                            else current_column s2 + cx);
                                   s3 = (if y_end = nlines \<and> x_end = ncols
                                         then s2\<lparr>complete := True\<rparr> else s2)
                               in (Inr (Chunk x_start x_end y_start y_end), s3)))))))"

text \<open>
  \<open>read_next\<close> up to the call on the handle: the new cursor and the read asked for. With
  \<open>by\<close> none of the four modes, \<open>subset\<close> is unbound at the \<open>return\<close>.
\<close>

definition next_call :: "hytools \<Rightarrow> iterator \<Rightarrow> (pyerror + read_call) \<times> iterator" where
  "next_call hy_obj self =
     (if by_dim self = ''line'' then
        (let s1 = self\<lparr>current_line := current_line self + 1\<rparr> in
         case lines hy_obj of
           None \<Rightarrow> (Inl TypeError, s1)
         | Some n \<Rightarrow>
             (let s2 = (if current_line s1 = n - 1 then s1\<lparr>complete := True\<rparr> else s1)
              in (Inr (Line (current_line s2)), s2)))
      else if by_dim self = ''column'' then
        (let s1 = self\<lparr>current_column := current_column self + 1\<rparr> in
         case columns hy_obj of
           None \<Rightarrow> (Inl TypeError, s1)
         | Some n \<Rightarrow>
             (let s2 = (if current_column s1 = n - 1 then s1\<lparr>complete := True\<rparr> else s1)
              in (Inr (Column (current_column s2)), s2)))
      else if by_dim self = ''band'' then
        (let s1 = self\<lparr>current_band := current_band self + 1\<rparr> in
         case bands hy_obj of
           None \<Rightarrow> (Inl TypeError, s1)
         | Some n \<Rightarrow>
             (let s2 = (if current_band s1 = n - 1 then s1\<lparr>complete := True\<rparr> else s1)
              in (Inr (Band (current_band s2) None), s2)))
      else if by_dim self = ''chunk'' then next_chunk hy_obj self
      else (Inl (UnboundLocalError ''subset''), self))"

text \<open>\<open>read_next\<close>: the unit (or the exception), the cursor and the handle after the call.\<close>

definition read_next ::
  "platform \<Rightarrow> iterator \<times> hytools \<Rightarrow> (pyerror + ndarray) \<times> iterator \<times> hytools" where
  "read_next p st =
     (case st of (self, hy_obj) \<Rightarrow>
        (case next_call hy_obj self of
           (Inl e, s) \<Rightarrow> (Inl e, s, hy_obj)
         | (Inr call, s) \<Rightarrow>
             (case perform p call hy_obj of (subset', h) \<Rightarrow> (subset', s, h))))"

definition reset :: "iterator \<Rightarrow> iterator" where
  "reset self =
     self\<lparr>current_column := - 1, current_line := - 1, current_band := - 1, complete := False\<rparr>"

text \<open>
  \<open>n\<close> successive calls of \<open>read_next\<close>: for each call what it returned and the value of
  \<open>complete\<close> after it, and the cursor and the handle after the last.
\<close>

fun read_next_n ::
  "platform \<Rightarrow> nat \<Rightarrow> iterator \<times> hytools
     \<Rightarrow> ((pyerror + ndarray) \<times> bool) list \<times> iterator \<times> hytools" where
  "read_next_n p 0 st = ([], st)"
| "read_next_n p (Suc n) st =
     (case read_next p st of
        (subset', s, h) \<Rightarrow>
          (case read_next_n p n (s, h) of (rs, st') \<Rightarrow> ((subset', complete s) # rs, st')))"

text \<open>The reads that \<open>n\<close> successive calls ask of the handle, with \<open>complete\<close> after each.\<close>

fun next_calls :: "hytools \<Rightarrow> nat \<Rightarrow> iterator \<Rightarrow> ((pyerror + read_call) \<times> bool) list" where
  "next_calls hy_obj 0 self = []"
| "next_calls hy_obj (Suc n) self =
     (case next_call hy_obj self of (r, s) \<Rightarrow> (r, complete s) # next_calls hy_obj n s)"


subsection \<open>Notions for the properties\<close>

text \<open>
  The handle without its data handle: the raster metadata and the mask registry.
\<close>

definition meta :: "hytools \<Rightarrow> hytools" where
  "meta h = h\<lparr>data := None, hdf_obj := None\<rparr>"

text \<open>What the calls return, read off the cursor arithmetic alone.\<close>

definition unit_of :: "platform \<Rightarrow> hytools \<Rightarrow> (pyerror + read_call) \<Rightarrow> pyerror + ndarray" where
  "unit_of p h r = (case r of Inl e \<Rightarrow> Inl e | Inr call \<Rightarrow> fst (perform p call h))"

text \<open>The (rows, columns) extent of the window a chunk read asks for.\<close>

fun chunk_extent :: "read_call \<Rightarrow> (int \<times> int) option" where
  "chunk_extent (Chunk col_start col_end line_start line_end) =
     Some (line_end - line_start, col_end - col_start)"
| "chunk_extent _ = None"

text \<open>The handle after \<open>close_data\<close> has released what \<open>load_data\<close> acquired.\<close>

definition released :: "hytools \<Rightarrow> hytools" where
  "released h =
     (if file_type h = Some ''neon'' then h\<lparr>hdf_obj := None, data := None\<rparr>
      else h\<lparr>data := None\<rparr>)"

text \<open>
  For each read call, the selection the codec makes on the mapped buffer and the
  selection made on the container dataset, as the five methods pass them on, and what
  \<open>get_band\<close> does with its named mask afterwards.
\<close>

fun envi_select ::
  "read_call \<Rightarrow> data_handle option \<Rightarrow> interleave_tag option \<Rightarrow> pyerror + ndarray" where
  "envi_select (Band index mask') = envi_read_band index"
| "envi_select (Line index) = envi_read_line index"
| "envi_select (Column index) = envi_read_column index"
| "envi_select (Pixels lns cols) = envi_read_pixels lns cols"
| "envi_select (Chunk col_start col_end line_start line_end) =
     envi_read_chunk col_start col_end line_start line_end"

fun neon_select :: "read_call \<Rightarrow> data_handle option \<Rightarrow> pyerror + ndarray" where
  "neon_select (Band index mask') = neon_band index"
| "neon_select (Line index) = neon_line index"
| "neon_select (Column index) = neon_column index"
| "neon_select (Pixels lns cols) = neon_pixels lns cols"
| "neon_select (Chunk col_start col_end line_start line_end) =
     neon_chunk col_start col_end line_start line_end"

fun masked :: "read_call \<Rightarrow> hytools \<Rightarrow> ndarray \<Rightarrow> pyerror + ndarray" where
  "masked (Band index (Some name)) h a = (if name \<noteq> [] then index_by_mask h name a else Inr a)"
| "masked _ h a = Inr a"

text \<open>The positions of the true entries of a boolean sequence, in order.\<close>

definition true_positions :: "bool list \<Rightarrow> nat list" where
  "true_positions bs = filter (\<lambda>j. bs ! j) [0..<length bs]"

subsection \<open>Example inputs\<close>

text \<open>
  \<open>os.path.basename(os.path.splitext(p)[0])\<close> on a POSIX path: the last component
  without its extension, where a component of dots only, or dots before the first
  other character, has none.
\<close>

definition posix_stem :: "string \<Rightarrow> string" where
  "posix_stem p =
     (let b = rev (takeWhile (\<lambda>c. c \<noteq> CHR ''/'') (rev p));
          ext = takeWhile (\<lambda>c. c \<noteq> CHR ''.'') (rev b);
          root = take (length b - length ext - 1) b
      in if CHR ''.'' \<in> set b \<and> list_ex (\<lambda>c. c \<noteq> CHR ''.'') root then root else b)"

text \<open>An element read as a signed little-endian integer.\<close>

definition le_value :: "elem \<Rightarrow> int" where
  "le_value x =
     (let u = foldr (\<lambda>b acc. uint b + 256 * acc) x 0
      in if 2 * u \<ge> 256 ^ length x \<and> x \<noteq> [] then u - 256 ^ length x else u)"

text \<open>
  A little-endian platform with a container file and a flat binary file of a
  2 x 2 x 2 raster, and a container file and a flat binary file of a 250 x 250 x 1 raster
  whose pixel at (l, c) holds the bytes of l and c.
\<close>

definition demo_platform :: platform where
  "demo_platform = \<lparr>
     byteorder = ''little'',
     np_memmap = (\<lambda>name dt mode sh off.
        if name = Some (PyStr ''scene.bin'') then Inr (\<lambda>i. [word_of_nat i, 0])
        else if name = Some (PyStr ''wide.bin'')
        then Inr (\<lambda>i. [word_of_nat (i div 250), word_of_nat (i mod 250)])
        else Inl OSError),
     h5py_File = (\<lambda>name.
        if name = Some (PyStr ''scene.h5'')
        then Inr (\<lambda>k. if k = ''SITE'' then Some ((2, 2, 2), \<lambda>l c b. [word_of_nat (4 * l + 2 * c + b)])
                        else None)
        else if name = Some (PyStr ''wide.h5'')
        then Inr (\<lambda>k. if k = ''SITE'' then Some ((250, 250, 1), \<lambda>l c b. [word_of_nat l, word_of_nat c])
                        else None)
        else Inl OSError),
     path_stem = (\<lambda>name. case name of Some (PyStr s) \<Rightarrow> Inr (posix_stem s) | _ \<Rightarrow> Inl TypeError),
     np_not_equal = (\<lambda>dt x v. case v of None \<Rightarrow> True | Some r \<Rightarrow> of_int (le_value x) \<noteq> r) \<rparr>"

definition neon_scene :: hytools where
  "neon_scene = HyTools\<lparr>file_name := Some (PyStr ''scene.h5''), file_type := Some ''neon'',
     base_key := Some ''SITE'', lines := Some 2, columns := Some 2, bands := Some 2,
     wavelengths := NdArray [Finite 450, Finite 550]\<rparr>"

definition wide_scene :: hytools where
  "wide_scene = HyTools\<lparr>file_name := Some (PyStr ''wide.h5''), file_type := Some ''neon'',
     base_key := Some ''SITE'', lines := Some 250, columns := Some 250, bands := Some 1\<rparr>"

definition wide_flat :: hytools where
  "wide_flat = HyTools\<lparr>file_name := Some (PyStr ''wide.bin''), file_type := Some ''envi'',
     lines := Some 250, columns := Some 250, bands := Some 1, shape := Some (250, 250, 1),
     interleave := Some BIP, endianness := Some ''little'', dtype := Some ''int16''\<rparr>"

definition envi_scene :: hytools where
  "envi_scene = HyTools\<lparr>file_name := Some (PyStr ''scene.bin''), file_type := Some ''envi'',
     lines := Some 2, columns := Some 2, bands := Some 2, shape := Some (2, 2, 2),
     interleave := Some BIP, endianness := Some ''big'', dtype := Some ''int16''\<rparr>"

definition four_bands :: hytools where
  "four_bands = neon_scene\<lparr>wavelengths := NdArray [Finite 450, Finite 550, Finite 650, Finite 750]\<rparr>"

definition diagonal_mask :: "bool list list" where
  "diagonal_mask = [[True, False], [False, True]]"

text \<open>
  The pixels of the lines from \<open>y0\<close> up to \<open>y1\<close> and the columns from \<open>x0\<close> up to \<open>x1\<close>, with
  all \<open>B\<close> bands, of a raster whose element at (l, c, b) is \<open>d l c b\<close>.
\<close>

definition window ::
  "(nat \<Rightarrow> nat \<Rightarrow> nat \<Rightarrow> elem) \<Rightarrow> nat \<Rightarrow> nat \<Rightarrow> nat \<Rightarrow> nat \<Rightarrow> nat \<Rightarrow> ndarray" where
  "window d B x0 x1 y0 y1 =
     Array3 (map (\<lambda>l. map (\<lambda>c. map (\<lambda>b. d l c b) [0..<B]) [x0..<x1]) [y0..<y1])"

text \<open>
  The nine tiles of the 3 by 3 tiling of a 250 x 250 raster by chunks of 100 x 100, clipped
  at the raster's edge, in row-major tile order, each with the value of \<open>complete\<close>
  after it.
\<close>

definition nine_tiles ::
  "(nat \<Rightarrow> nat \<Rightarrow> nat \<Rightarrow> elem) \<Rightarrow> nat \<Rightarrow> ((pyerror + ndarray) \<times> bool) list" where
  "nine_tiles d B =
     [(Inr (window d B 0 100 0 100), False), (Inr (window d B 100 200 0 100), False),
      (Inr (window d B 200 250 0 100), False), (Inr (window d B 0 100 100 200), False),
      (Inr (window d B 100 200 100 200), False), (Inr (window d B 200 250 100 200), False),
      (Inr (window d B 0 100 200 250), False), (Inr (window d B 100 200 200 250), False),
      (Inr (window d B 200 250 200 250), True)]"

text \<open>
  The numbers of rows and of columns of a returned unit, when it is a 3-D array all of
  whose rows have the same length.
\<close>

fun tile_size :: "pyerror + ndarray \<Rightarrow> (nat \<times> nat) option" where
  "tile_size (Inr (Array3 [])) = Some (0, 0)"
| "tile_size (Inr (Array3 (r # rs))) =
     (if list_all (\<lambda>q. length q = length r) rs then Some (Suc (length rs), length r) else None)"
| "tile_size u = None"

text \<open>
  The element at (l, c, b) that a read of the mapped buffer returns: the stored one,
  byte-swapped when the declared byte order is not the platform's.
\<close>

definition corrected_view ::
  "platform \<Rightarrow> hytools \<Rightarrow> interleave_tag \<Rightarrow> nat \<times> nat \<times> nat \<Rightarrow> (nat \<Rightarrow> elem)
     \<Rightarrow> nat \<Rightarrow> nat \<Rightarrow> nat \<Rightarrow> elem" where
  "corrected_view p h t sh buf l c b =
     (if endianness h = Some (byteorder p) then buf (flat_index t (raster_dims t sh) l c b)
      else rev (buf (flat_index t (raster_dims t sh) l c b)))"

text \<open>
  The doubles written 1588.3, 412.3 and 1000.3, and a raster with the first two as its
  wavelengths.
\<close>

definition d1588_3 :: real where "d1588_3 = 6985417273586483 / 2 ^ 42"

definition d412_3 :: real where "d412_3 = 7253258306112717 / 2 ^ 44"

definition d1000_3 :: real where "d1000_3 = 4399365925057331 / 2 ^ 42"

definition two_bands :: hytools where
  "two_bands = neon_scene\<lparr>wavelengths := NdArray [Finite d1588_3, Finite d412_3]\<rparr>"

section \<open>Properties\<close>

subsection \<open>Reads touch nothing but the data handle\<close>

lemma load_data_meta: "meta (snd (load_data p m h)) = meta h"
  by (simp add: load_data_def meta_def Let_def split: sum.splits option.splits prod.splits)

lemma close_data_meta: "meta (snd (close_data h)) = meta h"
  by (simp add: close_data_def meta_def split: option.splits)

lemma backend_read_meta: "meta (snd (backend_read p v n e h)) = meta h"
  unfolding backend_read_def
  using load_data_meta[of p "''r''" h] close_data_meta[of "snd (load_data p ''r'' h)"]
  by (auto split: prod.splits sum.splits option.splits)

lemma meta_fields:
  "file_type (meta h) = file_type h" "mask_tbl (meta h) = mask_tbl h"
  "lines (meta h) = lines h" "columns (meta h) = columns h" "bands (meta h) = bands h"
  "wavelengths (meta h) = wavelengths h"
  by (simp_all add: meta_def)

lemma meta_eq_update:
  assumes "meta h = meta h'"
  shows "h' = h\<lparr>data := data h', hdf_obj := hdf_obj h'\<rparr>"
proof -
  have "h' = (meta h')\<lparr>data := data h', hdf_obj := hdf_obj h'\<rparr>"
    by (simp add: meta_def)
  also have "\<dots> = (meta h)\<lparr>data := data h', hdf_obj := hdf_obj h'\<rparr>"
    using assms by simp
  also have "\<dots> = h\<lparr>data := data h', hdf_obj := hdf_obj h'\<rparr>"
    by (simp add: meta_def)
  finally show ?thesis .
qed

text \<open>What a read returns does not depend on the data handle left in the object.\<close>

lemma backend_read_update:
  "fst (backend_read p v n e (h\<lparr>data := d, hdf_obj := f\<rparr>)) = fst (backend_read p v n e h)"
  unfolding backend_read_def load_data_def close_data_def
  by (simp add: Let_def split: sum.splits option.splits prod.splits)

lemma backend_read_indep:
  assumes "meta h = meta h'"
  shows "fst (backend_read p v n e h') = fst (backend_read p v n e h)"
  using backend_read_update[where p=p and v=v and n=n and e=e and h=h
      and d="data h'" and f="hdf_obj h'"] meta_eq_update[OF assms]
  by simp


lemma mask_tbl_meta_eq: "meta h = meta h' \<Longrightarrow> mask_tbl h = mask_tbl h'"
  by (metis meta_fields(2))

lemma get_band_meta: "meta (snd (get_band p i m h)) = meta h"
  unfolding get_band_def using backend_read_meta[of p "''band''" "neon_band i" "envi_read_band i" h]
  by (auto split: prod.splits sum.splits option.splits)

lemma perform_meta: "meta (snd (perform p c h)) = meta h"
proof (cases c)
  case (Band i m)
  then show ?thesis by (simp add: get_band_meta)
qed (simp_all add: get_line_def get_column_def get_pixels_def get_chunk_def backend_read_meta)

lemma get_band_indep:
  assumes "meta h = meta h'"
  shows "fst (get_band p i m h') = fst (get_band p i m h)"
proof -
  let ?b = "\<lambda>x. backend_read p ''band'' (neon_band i) (envi_read_band i) x"
  have f: "fst (?b h') = fst (?b h)" by (rule backend_read_indep[OF assms])
  have "meta (snd (?b h')) = meta (snd (?b h))"
    using assms by (simp add: backend_read_meta)
  then have t: "mask_tbl (snd (?b h')) = mask_tbl (snd (?b h))"
    by (rule mask_tbl_meta_eq)
  show ?thesis
    unfolding get_band_def using f t
    by (cases "?b h"; cases "?b h'") (auto simp: index_by_mask_def split: sum.splits option.splits)
qed

lemma perform_indep:
  assumes "meta h = meta h'"
  shows "fst (perform p c h') = fst (perform p c h)"
proof (cases c)
  case (Band i m)
  then show ?thesis by (simp add: get_band_indep[OF assms])
qed (simp_all add: get_line_def get_column_def get_pixels_def get_chunk_def
       backend_read_indep[OF assms])

lemma next_chunk_indep:
  assumes "meta h = meta h'"
  shows "next_chunk h' it = next_chunk h it"
proof -
  have l: "lines h' = lines h" and c: "columns h' = columns h"
    using assms by (metis meta_fields(3), metis meta_fields(4))
  show ?thesis unfolding next_chunk_def l c by (rule refl)
qed

lemma next_call_indep:
  assumes "meta h = meta h'"
  shows "next_call h' it = next_call h it"
proof -
  have l: "lines h' = lines h" and c: "columns h' = columns h" and b: "bands h' = bands h"
    using assms by (metis meta_fields(3), metis meta_fields(4), metis meta_fields(5))
  show ?thesis unfolding next_call_def l c b next_chunk_indep[OF assms] by (rule refl)
qed

lemma read_next_meta: "meta (snd (snd (read_next p (it, h)))) = meta h"
proof (cases "next_call h it")
  case (Pair r s)
  show ?thesis
  proof (cases r)
    case (Inl e)
    then show ?thesis using Pair by (simp add: read_next_def)
  next
    case (Inr c)
    then show ?thesis
      using Pair perform_meta[of p c h] by (cases "perform p c h") (simp add: read_next_def)
  qed
qed

lemma read_next_n_calls:
  "meta h' = meta h \<Longrightarrow>
   fst (read_next_n p n (it, h')) = map (\<lambda>(r, c). (unit_of p h r, c)) (next_calls h n it)"
proof (induction n arbitrary: it h')
  case 0
  then show ?case by simp
next
  case (Suc n)
  have nc: "next_call h' it = next_call h it"
    using Suc.prems next_call_indep[of h h' it] by simp
  obtain r s where rs: "next_call h it = (r, s)" by (cases "next_call h it")
  obtain u s' h'' where rn: "read_next p (it, h') = (u, s', h'')"
    by (cases "read_next p (it, h')") auto
  have m: "meta h'' = meta h"
    using read_next_meta[of p it h'] rn Suc.prems by simp
  have s': "s' = s" using rn nc rs by (auto simp: read_next_def split: sum.splits prod.splits)
  have u: "u = unit_of p h r"
  proof (cases r)
    case (Inl e)
    then show ?thesis using rn nc rs by (simp add: read_next_def unit_of_def)
  next
    case (Inr c)
    have "fst (perform p c h') = fst (perform p c h)"
      using perform_indep[of h h' p c] Suc.prems by simp
    then show ?thesis
      using Inr rn nc rs by (cases "perform p c h'") (simp add: read_next_def unit_of_def)
  qed
  show ?case
    using Suc.IH[OF m, of s] rn rs s' u by (auto split: prod.splits)
qed


subsection \<open>Chunk traversal\<close>

text \<open>
  On the container backend a window inside the raster comes back with
  \<open>line_end - line_start\<close> rows of \<open>col_end - col_start\<close> pixels of all bands.
\<close>

lemma neon_chunk_shape:
  assumes "0 \<le> col_start" "col_start \<le> col_end" "col_end \<le> int C"
    and "0 \<le> line_start" "line_start \<le> line_end" "line_end \<le> int L"
  shows "\<exists>t. neon_chunk col_start col_end line_start line_end (Some (Dataset (L, C, B) d)) =
             Inr (Array3 t)
           \<and> length t = nat (line_end - line_start)
           \<and> (\<forall>row \<in> set t. length row = nat (col_end - col_start)
                 \<and> (\<forall>px \<in> set row. length px = B))"
proof -
  have l: "length (py_slice L line_start line_end) = nat (line_end - line_start)"
    using assms by (simp add: py_slice_def slice_clip_def min_def nat_diff_distrib)
  have c: "length (py_slice C col_start col_end) = nat (col_end - col_start)"
    using assms by (simp add: py_slice_def slice_clip_def min_def nat_diff_distrib)
  show ?thesis using l c by auto
qed

lemma chunk_calls_250:
  assumes "lines h = Some 250" and "columns h = Some 250"
  shows "next_calls h 9 (Iterator ''chunk'' (Some (100, 100))) =
     [(Inr (Chunk 0 100 0 100), False), (Inr (Chunk 100 200 0 100), False),
      (Inr (Chunk 200 250 0 100), False), (Inr (Chunk 0 100 100 200), False),
      (Inr (Chunk 100 200 100 200), False), (Inr (Chunk 200 250 100 200), False),
      (Inr (Chunk 0 100 200 250), False), (Inr (Chunk 100 200 200 250), False),
      (Inr (Chunk 200 250 200 250), True)]"
  by (simp add: eval_nat_numeral next_call_def next_chunk_def Iterator_def assms)

text \<open>What the nine calls return, in terms of \<open>get_chunk\<close>.\<close>

lemma chunk_reads_250:
  assumes "lines h = Some 250" and "columns h = Some 250"
  shows "fst (read_next_n p 9 (Iterator ''chunk'' (Some (100, 100)), h)) =
     [(fst (get_chunk p 0 100 0 100 h), False), (fst (get_chunk p 100 200 0 100 h), False),
      (fst (get_chunk p 200 250 0 100 h), False), (fst (get_chunk p 0 100 100 200 h), False),
      (fst (get_chunk p 100 200 100 200 h), False), (fst (get_chunk p 200 250 100 200 h), False),
      (fst (get_chunk p 0 100 200 250 h), False), (fst (get_chunk p 100 200 200 250 h), False),
      (fst (get_chunk p 200 250 200 250 h), True)]
   \<and> map (\<lambda>(r, c). (case r of Inl e \<Rightarrow> None | Inr call \<Rightarrow> chunk_extent call, c))
         (next_calls h 9 (Iterator ''chunk'' (Some (100, 100)))) =
     [(Some (100, 100), False), (Some (100, 100), False), (Some (100, 50), False),
      (Some (100, 100), False), (Some (100, 100), False), (Some (100, 50), False),
      (Some (50, 100), False), (Some (50, 100), False), (Some (50, 50), True)]"
  using read_next_n_calls[of h h p 9 "Iterator ''chunk'' (Some (100, 100))"]
  by (simp add: chunk_calls_250[OF assms] unit_of_def)

subsection \<open>Line, column and band traversal\<close>

lemma upt_Suc_shift: "[0..<Suc k] = 0 # map Suc [0..<k]"
  by (simp add: upt_conv_Cons map_Suc_upt del: upt_Suc)

lemma line_calls:
  "by_dim it = ''line'' \<Longrightarrow> lines h = Some n \<Longrightarrow>
   next_calls h k it =
     map (\<lambda>i. (Inr (Line (current_line it + 1 + int i)),
                complete it \<or> (current_line it + 1 \<le> n - 1 \<and> n - 1 \<le> current_line it + 1 + int i)))
         [0..<k]"
proof (induction k arbitrary: it)
  case 0
  then show ?case by simp
next
  case (Suc k)
  let ?s = "snd (next_call h it)"
  have s: "by_dim ?s = ''line''" "current_line ?s = current_line it + 1"
    "complete ?s = (complete it \<or> current_line it + 1 = n - 1)"
    "fst (next_call h it) = Inr (Line (current_line it + 1))"
    using Suc.prems by (simp_all add: next_call_def Let_def)
  show ?case
    unfolding upt_Suc_shift using Suc.IH[of ?s, OF s(1) Suc.prems(2)] s
    by (cases "next_call h it") (auto simp: algebra_simps)
qed

lemma column_calls:
  "by_dim it = ''column'' \<Longrightarrow> columns h = Some n \<Longrightarrow>
   next_calls h k it =
     map (\<lambda>i. (Inr (Column (current_column it + 1 + int i)),
                complete it \<or> (current_column it + 1 \<le> n - 1 \<and> n - 1 \<le> current_column it + 1 + int i)))
         [0..<k]"
proof (induction k arbitrary: it)
  case 0
  then show ?case by simp
next
  case (Suc k)
  let ?s = "snd (next_call h it)"
  have s: "by_dim ?s = ''column''" "current_column ?s = current_column it + 1"
    "complete ?s = (complete it \<or> current_column it + 1 = n - 1)"
    "fst (next_call h it) = Inr (Column (current_column it + 1))"
    using Suc.prems by (simp_all add: next_call_def Let_def)
  show ?case
    unfolding upt_Suc_shift using Suc.IH[of ?s, OF s(1) Suc.prems(2)] s
    by (cases "next_call h it") (auto simp: algebra_simps)
qed

lemma band_calls:
  "by_dim it = ''band'' \<Longrightarrow> bands h = Some n \<Longrightarrow>
   next_calls h k it =
     map (\<lambda>i. (Inr (Band (current_band it + 1 + int i) None),
                complete it \<or> (current_band it + 1 \<le> n - 1 \<and> n - 1 \<le> current_band it + 1 + int i)))
         [0..<k]"
proof (induction k arbitrary: it)
  case 0
  then show ?case by simp
next
  case (Suc k)
  let ?s = "snd (next_call h it)"
  have s: "by_dim ?s = ''band''" "current_band ?s = current_band it + 1"
    "complete ?s = (complete it \<or> current_band it + 1 = n - 1)"
    "fst (next_call h it) = Inr (Band (current_band it + 1) None)"
    using Suc.prems by (simp_all add: next_call_def Let_def)
  show ?case
    unfolding upt_Suc_shift using Suc.IH[of ?s, OF s(1) Suc.prems(2)] s
    by (cases "next_call h it") (auto simp: algebra_simps)
qed

lemma kth_of_calls:
  assumes "0 < k" and "int k \<le> n"
    and "next_calls h k it = map (\<lambda>i. (Inr (mk (- 1 + 1 + int i)), False \<or> (- 1 + 1 \<le> n - 1 \<and> n - 1 \<le> - 1 + 1 + int i))) [0..<k]"
  shows "fst (read_next_n p k (it, h)) ! (k - 1) = (fst (perform p (mk (int k - 1)) h), int k = n)"
proof -
  have "fst (read_next_n p k (it, h)) ! (k - 1) =
        (\<lambda>(r, c). (unit_of p h r, c)) (next_calls h k it ! (k - 1))"
    using read_next_n_calls[of h h p k it] assms(1,3) by simp
  also have "next_calls h k it ! (k - 1) = (Inr (mk (int k - 1)), int k = n)"
    using assms by auto
  finally show ?thesis by (simp add: unit_of_def)
qed

text \<open>
  C6. A cursor in line, column or band mode starts with its counter at -1. Over a
  dimension of size \<open>n > 0\<close>, the \<open>k\<close>-th call of \<open>read_next\<close> (\<open>1 \<le> k \<le> n\<close>) returns what
  \<open>get_line\<close>, \<open>get_column\<close> or \<open>get_band\<close> returns for index \<open>k - 1\<close>, and \<open>complete\<close>
  after that call is true exactly when \<open>k = n\<close>.
\<close>

theorem linear_traversal:
  assumes "0 < k" and "int k \<le> n"
  shows "(lines h = Some n \<longrightarrow>
            current_line (Iterator ''line'' cs) = - 1 \<and>
            fst (read_next_n p k (Iterator ''line'' cs, h)) ! (k - 1) =
              (fst (get_line p (int k - 1) h), int k = n))
       \<and> (columns h = Some n \<longrightarrow>
            current_column (Iterator ''column'' cs) = - 1 \<and>
            fst (read_next_n p k (Iterator ''column'' cs, h)) ! (k - 1) =
              (fst (get_column p (int k - 1) h), int k = n))
       \<and> (bands h = Some n \<longrightarrow>
            current_band (Iterator ''band'' cs) = - 1 \<and>
            fst (read_next_n p k (Iterator ''band'' cs, h)) ! (k - 1) =
              (fst (get_band p (int k - 1) None h), int k = n))"
proof (intro conjI impI)
  assume l: "lines h = Some n"
  show "fst (read_next_n p k (Iterator ''line'' cs, h)) ! (k - 1) =
          (fst (get_line p (int k - 1) h), int k = n)"
    using kth_of_calls[OF assms, of h "Iterator ''line'' cs" Line p]
      line_calls[of "Iterator ''line'' cs" h n k] l
    by (simp add: Iterator_def)
next
  assume c: "columns h = Some n"
  show "fst (read_next_n p k (Iterator ''column'' cs, h)) ! (k - 1) =
          (fst (get_column p (int k - 1) h), int k = n)"
    using kth_of_calls[OF assms, of h "Iterator ''column'' cs" Column p]
      column_calls[of "Iterator ''column'' cs" h n k] c
    by (simp add: Iterator_def)
next
  assume b: "bands h = Some n"
  show "fst (read_next_n p k (Iterator ''band'' cs, h)) ! (k - 1) =
          (fst (get_band p (int k - 1) None h), int k = n)"
    using kth_of_calls[OF assms, of h "Iterator ''band'' cs" "\<lambda>i. Band i None" p]
      band_calls[of "Iterator ''band'' cs" h n k] b
    by (simp add: Iterator_def)
qed (simp_all add: Iterator_def)


theorem linear_traversal_witness:
  "fst (read_next_n demo_platform 2 (Iterator ''line'' None, neon_scene)) ! 1 =
     (Inr (Array2 [[[4], [5]], [[6], [7]]]), True)
   \<and> fst (read_next_n demo_platform 1 (Iterator ''column'' None, neon_scene)) ! 0 =
     (Inr (Array2 [[[0], [1]], [[4], [5]]]), False)
   \<and> fst (read_next_n demo_platform 2 (Iterator ''band'' None, neon_scene)) ! 1 =
     (Inr (Array2 [[[1], [3]], [[5], [7]]]), True)"
proof -
  have k: "0 < (2::nat)" "int 2 \<le> 2" "0 < (1::nat)" "int 1 \<le> 2" by simp_all
  have d: "lines neon_scene = Some 2" "columns neon_scene = Some 2" "bands neon_scene = Some 2"
    by (simp_all add: neon_scene_def)
  have v: "fst (get_line demo_platform 1 neon_scene) = Inr (Array2 [[[4], [5]], [[6], [7]]])"
    "fst (get_column demo_platform 0 neon_scene) = Inr (Array2 [[[0], [1]], [[4], [5]]])"
    "fst (get_band demo_platform 1 None neon_scene) = Inr (Array2 [[[1], [3]], [[5], [7]]])"
    by (simp_all add: get_line_def get_column_def get_band_def backend_read_def load_data_def
        close_data_def neon_scene_def demo_platform_def HyTools_def py_index_def
        upt_conv_Cons)
  show ?thesis
    using linear_traversal[OF k(1,2), of neon_scene None demo_platform]
      linear_traversal[OF k(3,4), of neon_scene None demo_platform] d v
    by simp
qed


subsection \<open>Reset\<close>

lemma next_chunk_mode:
  "by_dim (snd (next_chunk h it)) = by_dim it \<and> chunk_size (snd (next_chunk h it)) = chunk_size it"
  by (simp add: next_chunk_def Let_def split: option.splits prod.splits sum.splits)

lemma next_call_mode:
  "by_dim (snd (next_call h it)) = by_dim it \<and> chunk_size (snd (next_call h it)) = chunk_size it"
  by (simp add: next_call_def next_chunk_mode Let_def split: option.splits)

lemma read_next_mode:
  "by_dim (fst (snd (read_next p (it, h)))) = by_dim it \<and>
   chunk_size (fst (snd (read_next p (it, h)))) = chunk_size it"
  using next_call_mode[of h it]
  by (cases "next_call h it") (auto simp: read_next_def split: sum.splits prod.splits)

lemma read_next_n_mode:
  "by_dim (fst (snd (read_next_n p k (it, h)))) = by_dim it \<and>
   chunk_size (fst (snd (read_next_n p k (it, h)))) = chunk_size it"
proof (induction k arbitrary: it h)
  case 0
  then show ?case by simp
next
  case (Suc k)
  obtain u s h' where r: "read_next p (it, h) = (u, s, h')"
    by (cases "read_next p (it, h)") auto
  show ?case
    using Suc.IH[of s h'] read_next_mode[of p it h] r by (auto split: prod.splits)
qed

lemma read_next_n_meta: "meta (snd (snd (read_next_n p k (it, h)))) = meta h"
proof (induction k arbitrary: it h)
  case 0
  then show ?case by simp
next
  case (Suc k)
  obtain u s h' where r: "read_next p (it, h) = (u, s, h')"
    by (cases "read_next p (it, h)") auto
  show ?case
    using Suc.IH[of s h'] read_next_meta[of p it h] r by (auto split: prod.splits)
qed

lemma reset_is_fresh: "reset it = Iterator (by_dim it) (chunk_size it)"
  by (simp add: reset_def Iterator_def)

lemma read_next_indep:
  assumes "meta h = meta h'"
  shows "fst (read_next p (it, h')) = fst (read_next p (it, h))"
proof (cases "next_call h it")
  case (Pair r s)
  then have n': "next_call h' it = (r, s)" using next_call_indep[OF assms, of it] by simp
  show ?thesis
  proof (cases r)
    case (Inl e)
    then show ?thesis using Pair n' by (simp add: read_next_def)
  next
    case (Inr c)
    then show ?thesis
      using Pair n' perform_indep[OF assms, of p c]
      by (cases "perform p c h"; cases "perform p c h'") (simp add: read_next_def)
  qed
qed

text \<open>
  C7. After any number of \<open>read_next\<close> calls on a cursor of any mode, \<open>reset\<close> gives
  back the cursor as constructed (all counters -1, \<open>complete\<close> false), and the next
  \<open>read_next\<close> returns the unit a newly constructed cursor returns first on the handle.
\<close>

theorem reset_restores:
  "reset (fst (snd (read_next_n p k (Iterator by' cs, h)))) = Iterator by' cs
   \<and> current_line (reset it) = - 1 \<and> current_column (reset it) = - 1
   \<and> current_band (reset it) = - 1 \<and> \<not> complete (reset it)
   \<and> fst (read_next p (reset (fst (snd (read_next_n p k (Iterator by' cs, h)))),
                        snd (snd (read_next_n p k (Iterator by' cs, h))))) =
       fst (read_next p (Iterator by' cs, h))"
proof -
  let ?R = "read_next_n p k (Iterator by' cs, h)"
  have a: "reset (fst (snd ?R)) = Iterator by' cs"
    using read_next_n_mode[of p k "Iterator by' cs" h]
    by (simp add: reset_is_fresh) (simp add: Iterator_def)
  have "meta h = meta (snd (snd ?R))" by (simp add: read_next_n_meta)
  then have b: "fst (read_next p (Iterator by' cs, snd (snd ?R))) =
                fst (read_next p (Iterator by' cs, h))"
    by (rule read_next_indep)
  show ?thesis using a b by (simp add: reset_def)
qed

subsection \<open>Opening a file\<close>

text \<open>
  C2. Whatever its arguments, \<open>read_file\<close> raises \<open>NameError\<close> for the name \<open>file_name\<close>
  before it reaches either backend: the outcome does not depend on \<open>open_envi\<close> and
  \<open>open_neon\<close>, nothing is printed and the handle is unchanged, so a handle as
  constructed keeps the constructor's values.
\<close>

theorem read_file_name_error:
  "read_file p base_globals open_envi open_neon file_type' anc_path' ext self =
     (Inl (NameError ''file_name''), self, [])
   \<and> fst (snd (read_file p base_globals open_envi open_neon file_type' anc_path' ext HyTools)) =
     HyTools"
  by (simp add: read_file_def load_global_def base_globals_def py_builtins_def)


subsection \<open>Unrecognized backend kinds\<close>



subsection \<open>Acquire, read, release\<close>

lemma backend_read_success:
  assumes "backend_read p v n e h = (Inr a, h')"
  shows "h' = released h"
  using assms unfolding backend_read_def load_data_def close_data_def released_def
  by (auto simp: Let_def split: if_splits sum.splits option.splits prod.splits)

lemma get_band_success:
  assumes "get_band p i m h = (Inr a, h')"
  shows "h' = released h"
proof (cases "backend_read p ''band'' (neon_band i) (envi_read_band i) h")
  case (Pair r s)
  show ?thesis
  proof (cases r)
    case (Inl e)
    then show ?thesis using assms Pair by (simp add: get_band_def)
  next
    case (Inr b)
    then have "s = released h" using Pair backend_read_success by blast
    then show ?thesis
      using assms Pair Inr by (auto simp: get_band_def split: if_splits option.splits)
  qed
qed

lemma perform_success:
  assumes "perform p c h = (Inr a, h')"
  shows "h' = released h"
proof (cases c)
  case (Band i m)
  then show ?thesis using assms get_band_success by simp
qed (use assms backend_read_success in
      \<open>simp_all add: get_line_def get_column_def get_pixels_def get_chunk_def\<close>)

text \<open>
  C3, as the code has it. Every read operation leaves the raster metadata and the mask
  registry as they were, whether it returns or raises; when it returns, the data handle
  acquired at its start has been released.
\<close>

theorem read_keeps_metadata:
  "meta (snd (perform p c h)) = meta h
   \<and> (\<forall>a. fst (perform p c h) = Inr a \<longrightarrow> snd (perform p c h) = released h)"
proof -
  have "snd (perform p c h) = released h" if "fst (perform p c h) = Inr a" for a
    using that perform_success[of p c h a "snd (perform p c h)"]
    by (cases "perform p c h") simp
  then show ?thesis by (simp add: perform_meta)
qed

theorem read_keeps_metadata_witness:
  "fst (perform demo_platform (Line 1) neon_scene) = Inr (Array2 [[[4], [5]], [[6], [7]]])
   \<and> snd (perform demo_platform (Line 1) neon_scene) = released neon_scene
   \<and> data (released neon_scene) = None \<and> hdf_obj (released neon_scene) = None
   \<and> meta (snd (perform demo_platform (Line 1) neon_scene)) = meta neon_scene"
proof -
  have v: "fst (perform demo_platform (Line 1) neon_scene) = Inr (Array2 [[[4], [5]], [[6], [7]]])"
    by (simp add: get_line_def backend_read_def load_data_def
        close_data_def neon_scene_def demo_platform_def HyTools_def py_index_def
        upt_conv_Cons)
  have r: "data (released neon_scene) = None \<and> hdf_obj (released neon_scene) = None"
    by (simp add: released_def neon_scene_def HyTools_def)
  have m: "meta (released neon_scene) = meta neon_scene"
    by (simp add: released_def meta_def)
  show ?thesis
    using read_keeps_metadata[of demo_platform "Line 1" neon_scene] v r m by simp
qed

text \<open>
  A read that raises partway is not followed by \<open>close_data\<close>: band 5 of a two-band
  container raster raises, and the file object and the dataset stay in the handle.
\<close>

theorem failed_read_keeps_handle:
  "fst (get_band demo_platform 5 None neon_scene) = Inl IndexError
   \<and> data (snd (get_band demo_platform 5 None neon_scene)) \<noteq> None
   \<and> hdf_obj (snd (get_band demo_platform 5 None neon_scene)) \<noteq> None
   \<and> data neon_scene = None \<and> hdf_obj neon_scene = None"
  by (simp add: get_band_def backend_read_def load_data_def
        close_data_def neon_scene_def demo_platform_def HyTools_def py_index_def)


subsection \<open>Byte order\<close>

lemma byteswap_twice: "byteswap (byteswap a) = a"
  by (cases a) (simp_all add: comp_def)

lemma load_data_snd_fields:
  "file_type (snd (load_data p m h)) = file_type h"
  "endianness (snd (load_data p m h)) = endianness h"
  by (simp_all add: load_data_def Let_def split: sum.splits option.splits prod.splits)

lemma load_data_fields:
  assumes "load_data p m h = (r, h1)"
  shows "file_type h1 = file_type h" "endianness h1 = endianness h"
  using load_data_snd_fields[of p m h] assms by simp_all

lemma close_after_load_snd:
  "fst (load_data p m h) = Inr u \<longrightarrow> close_data (snd (load_data p m h)) = (Inr (), released h)"
proof (cases "file_type h = Some ''envi''")
  case True
  then show ?thesis
    by (cases "np_memmap p (file_name h) (dtype h) m (shape h) (offset h)")
      (simp_all add: load_data_def close_data_def released_def)
next
  case False
  show ?thesis
  proof (cases "file_type h = Some ''neon''")
    case True
    show ?thesis
    proof (cases "h5py_File p (file_name h)")
      case (Inl e)
      then show ?thesis using True by (simp add: load_data_def)
    next
      case (Inr f)
      show ?thesis
      proof (cases "base_key h")
        case None
        then show ?thesis using True Inr by (simp add: load_data_def)
      next
        case (Some k)
        then show ?thesis
          using True Inr
          by (cases "f k") (auto simp: load_data_def close_data_def released_def)
      qed
    qed
  next
    case False
    then show ?thesis
      using \<open>file_type h \<noteq> Some ''envi''\<close>
      by (simp add: load_data_def close_data_def released_def)
  qed
qed

lemma close_after_load:
  assumes "load_data p m h = (Inr u, h1)"
  shows "close_data h1 = (Inr (), released h)"
  using close_after_load_snd[of p m h u] assms by simp

lemma backend_read_envi:
  assumes "load_data p ''r'' h = (Inr u, h1)" and "file_type h = Some ''envi''"
    and "envi (data h1) (interleave h1) = Inr raw"
  shows "backend_read p v neon envi h =
           (Inr (if endianness h = Some (byteorder p) then raw else byteswap raw), released h)"
  using assms load_data_fields[OF assms(1)] close_after_load[OF assms(1)]
  by (simp add: backend_read_def)

lemma backend_read_neon:
  assumes "load_data p ''r'' h = (Inr u, h1)" and "file_type h = Some ''neon''"
    and "neon (data h1) = Inr raw"
  shows "backend_read p v neon envi h = (Inr raw, released h)"
  using assms load_data_fields[OF assms(1)] close_after_load[OF assms(1)]
  by (simp add: backend_read_def)

lemma masked_released: "masked c (released h) a = masked c h a"
  by (cases "(c, h, a)" rule: masked.cases) (simp_all add: index_by_mask_def released_def)

lemma perform_by_backend:
  assumes "backend_read p v (neon_select c) (envi_select c) h = (Inr a, released h)"
    and "v = (case c of Band i m \<Rightarrow> ''band'' | Line i \<Rightarrow> ''line'' | Column i \<Rightarrow> ''column''
              | Pixels l k \<Rightarrow> ''pixels'' | Chunk w x y z \<Rightarrow> ''chunk'')"
  shows "fst (perform p c h) = masked c h a"
proof (cases c)
  case (Band i m)
  show ?thesis
  proof (cases m)
    case None
    then show ?thesis using assms Band by (simp add: get_band_def)
  next
    case (Some name)
    have "index_by_mask (released h) name a = index_by_mask h name a"
      by (simp add: index_by_mask_def released_def)
    then show ?thesis
      using assms Band Some by (simp add: get_band_def)
  qed
qed (use assms in \<open>simp_all add: get_line_def get_column_def get_pixels_def get_chunk_def\<close>)

text \<open>
  C5. On the flat-binary backend every read operation returns the codec's selection
  from the mapped buffer unchanged when the declared byte order is the platform's, and
  with every element byte-swapped, once, when it is not (a second swap would give the
  stored bytes back); on the container backend it returns the dataset's selection
  unchanged. A named mask of \<open>get_band\<close> is applied after that.
\<close>

theorem byte_order_correction:
  assumes "load_data p ''r'' h = (Inr (), h1)"
  shows "(file_type h = Some ''envi'' \<longrightarrow>
            envi_select c (data h1) (interleave h1) = Inr raw \<longrightarrow>
            fst (perform p c h) =
              masked c h (if endianness h = Some (byteorder p) then raw else byteswap raw)
            \<and> byteswap (byteswap raw) = raw)
       \<and> (file_type h = Some ''neon'' \<longrightarrow>
            neon_select c (data h1) = Inr raw \<longrightarrow>
            fst (perform p c h) = masked c h raw)"
proof -
  let ?v = "case c of Band i m \<Rightarrow> ''band'' | Line i \<Rightarrow> ''line'' | Column i \<Rightarrow> ''column''
              | Pixels l k \<Rightarrow> ''pixels'' | Chunk w x y z \<Rightarrow> ''chunk''"
  have e: "fst (perform p c h) =
          masked c h (if endianness h = Some (byteorder p) then raw else byteswap raw)"
    if t: "file_type h = Some ''envi''" and r: "envi_select c (data h1) (interleave h1) = Inr raw"
  proof -
    have "backend_read p ?v (neon_select c) (envi_select c) h =
           (Inr (if endianness h = Some (byteorder p) then raw else byteswap raw), released h)"
      using assms t r by (rule backend_read_envi)
    then show ?thesis by (rule perform_by_backend) (rule refl)
  qed
  have n: "fst (perform p c h) = masked c h raw"
    if t: "file_type h = Some ''neon''" and r: "neon_select c (data h1) = Inr raw"
  proof -
    have "backend_read p ?v (neon_select c) (envi_select c) h = (Inr raw, released h)"
      using assms t r by (rule backend_read_neon)
    then show ?thesis by (rule perform_by_backend) (rule refl)
  qed
  show ?thesis using e n byteswap_twice[of raw] by blast
qed


lemma demo_memmap:
  "load_data demo_platform ''r'' (envi_scene\<lparr>endianness := en\<rparr>) =
     (Inr (), envi_scene\<lparr>endianness := en,
        data := Some (Memmap (Some (2, 2, 2)) (\<lambda>i. [word_of_nat i, 0]))\<rparr>)"
  by (simp add: load_data_def envi_scene_def demo_platform_def HyTools_def)

lemma demo_dataset:
  "load_data demo_platform ''r'' neon_scene = (Inr (), snd (load_data demo_platform ''r'' neon_scene))"
  "data (snd (load_data demo_platform ''r'' neon_scene)) =
     Some (Dataset (2, 2, 2) (\<lambda>l c b. [word_of_nat (4 * l + 2 * c + b)]))"
  by (simp_all add: load_data_def neon_scene_def demo_platform_def HyTools_def)

theorem byte_order_correction_witness:
  "fst (perform demo_platform (Line 0) (envi_scene\<lparr>endianness := Some ''big''\<rparr>)) =
     Inr (Array2 [[[0, 0], [0, 1]], [[0, 2], [0, 3]]])
   \<and> fst (perform demo_platform (Line 0) (envi_scene\<lparr>endianness := Some ''little''\<rparr>)) =
     Inr (Array2 [[[0, 0], [1, 0]], [[2, 0], [3, 0]]])
   \<and> fst (perform demo_platform (Line 0) neon_scene) = Inr (Array2 [[[0], [1]], [[2], [3]]])"
proof -
  let ?raw = "Array2 [[[0, 0], [1, 0]], [[2, 0], [3, 0 :: byte]]]"
  have t: "file_type (envi_scene\<lparr>endianness := en\<rparr>) = Some ''envi''" for en
    by (simp add: envi_scene_def)
  have s: "envi_select (Line 0)
             (data (envi_scene\<lparr>endianness := en,
                data := Some (Memmap (Some (2, 2, 2)) (\<lambda>i. [word_of_nat i, 0]))\<rparr>))
             (interleave (envi_scene\<lparr>endianness := en,
                data := Some (Memmap (Some (2, 2, 2)) (\<lambda>i. [word_of_nat i, 0]))\<rparr>)) = Inr ?raw"
    for en
    by (simp add: envi_read_line_def envi_scene_def HyTools_def raster_dims_def flat_index_def
        in_range_def upt_conv_Cons)
  have tn: "file_type neon_scene = Some ''neon''" by (simp add: neon_scene_def)
  have sn: "neon_select (Line 0) (data (snd (load_data demo_platform ''r'' neon_scene))) =
        Inr (Array2 [[[0], [1]], [[2], [3]]])"
    by (simp add: demo_dataset(2) py_index_def upt_conv_Cons)
  show ?thesis
    using byte_order_correction[OF demo_memmap, of "Some ''big''" "Line 0" ?raw] t s
      byte_order_correction[OF demo_memmap, of "Some ''little''" "Line 0" ?raw]
      byte_order_correction[OF demo_dataset(1), of "Line 0" "Array2 [[[0], [1]], [[2], [3]]]"] tn sn
    by (simp add: demo_platform_def)
qed


subsection \<open>Masked band reads\<close>

lemma select_by_positions:
  "length xs = length bs \<Longrightarrow>
   map fst (filter snd (zip xs bs)) = map (\<lambda>j. xs ! j) (true_positions bs)"
proof (induction bs arbitrary: xs)
  case Nil
  then show ?case by (simp add: true_positions_def)
next
  case (Cons b bs)
  then obtain x xs' where xs: "xs = x # xs'" and l: "length xs' = length bs"
    by (cases xs) auto
  have f: "filter (\<lambda>j. (a # bs) ! j) (map Suc [0..<length bs]) =
           map Suc (filter (\<lambda>j. bs ! j) [0..<length bs])" for a
    by (simp add: filter_map comp_def)
  have "true_positions (b # bs) = (if b then [0] else []) @ map Suc (true_positions bs)"
    unfolding true_positions_def length_Cons upt_Suc_shift using f by simp
  then show ?case using Cons.IH[OF l] xs by (simp add: comp_def)
qed

lemma count_true_positions: "length (true_positions bs) = length (filter id bs)"
proof -
  have "filter id bs = filter id (map (\<lambda>j. bs ! j) [0..<length bs])"
    by (simp add: map_nth)
  also have "\<dots> = map (\<lambda>j. bs ! j) (true_positions bs)"
    by (simp add: filter_map comp_def true_positions_def)
  finally show ?thesis by simp
qed

lemma same_shape_concat:
  assumes "map length m = map length rows"
  shows "length (concat rows) = length (concat m)"
  using assms by (simp add: length_concat)

text \<open>
  C8, as the code has it. When the unmasked \<open>get_band\<close> returns the 2-D band, and the
  mask name is not the empty string and is registered to a boolean array of the band's
  shape, the masked \<open>get_band\<close> returns a 1-D array with as many elements as the mask
  has true entries, whose \<open>i\<close>-th element is the band's entry at the \<open>i\<close>-th true
  position of the mask in row-major order.
\<close>

theorem masked_band:
  assumes "get_band p index None h = (Inr (Array2 rows), h')"
    and "mask_tbl h name = Some m" and "name \<noteq> []"
    and "map length m = map length rows"
  shows "get_band p index (Some name) h =
           (Inr (Array1 (map (\<lambda>j. concat rows ! j) (true_positions (concat m)))), h')
       \<and> length (true_positions (concat m)) = length (filter id (concat m))"
proof -
  let ?b = "backend_read p ''band'' (neon_band index) (envi_read_band index) h"
  have b: "?b = (Inr (Array2 rows), h')"
    using assms(1) by (cases ?b) (auto simp: get_band_def split: sum.splits)
  have "meta h' = meta h" using backend_read_meta[of p "''band''" "neon_band index" "envi_read_band index" h] b by simp
  then have "mask_tbl h' = mask_tbl h" by (rule mask_tbl_meta_eq)
  then have "index_by_mask h' name (Array2 rows) =
               Inr (Array1 (map fst (filter snd (zip (concat rows) (concat m)))))"
    using assms(2,4) map_eq_imp_length_eq[OF assms(4)]
    by (simp add: index_by_mask_def bool_index_def)
  then show ?thesis
    using b assms(3) select_by_positions[OF same_shape_concat[OF assms(4)]]
    by (simp add: get_band_def count_true_positions)
qed

theorem masked_band_witness:
  "get_band demo_platform 0 (Some ''valid'') (set_mask diagonal_mask ''valid'' neon_scene) =
     (Inr (Array1 [[0], [6]]), set_mask diagonal_mask ''valid'' neon_scene)
   \<and> length (true_positions (concat diagonal_mask)) = 2"
proof -
  let ?h = "set_mask diagonal_mask ''valid'' neon_scene"
  have g: "get_band demo_platform 0 None ?h = (Inr (Array2 [[[0], [2]], [[4], [6]]]), ?h)"
    by (simp add: get_band_def backend_read_def load_data_def close_data_def set_mask_def
        neon_scene_def demo_platform_def HyTools_def py_index_def upt_conv_Cons)
  have m: "mask_tbl ?h ''valid'' = Some diagonal_mask" by (simp add: set_mask_def)
  have n: "''valid'' \<noteq> []" by simp
  have s: "map length diagonal_mask = map length [[[0], [2]], [[4], [6 :: byte]]]"
    by (simp add: diagonal_mask_def)
  have t: "true_positions (concat diagonal_mask) = [0, 3]"
    by (simp add: true_positions_def diagonal_mask_def upt_conv_Cons)
  show ?thesis using masked_band[OF g m n s] by (simp add: t)
qed

text \<open>
  A mask registered under the empty string is not applied (\<open>if mask:\<close> is false for it),
  and a registered mask of another shape than the band makes the read raise.
\<close>

theorem masked_band_counterexample:
  "mask_tbl (set_mask diagonal_mask [] neon_scene) [] = Some diagonal_mask
   \<and> fst (get_band demo_platform 0 (Some []) (set_mask diagonal_mask [] neon_scene)) =
       Inr (Array2 [[[0], [2]], [[4], [6]]])
   \<and> mask_tbl (set_mask [[True]] ''small'' neon_scene) ''small'' = Some [[True]]
   \<and> fst (get_band demo_platform 0 (Some ''small'') (set_mask [[True]] ''small'' neon_scene)) =
       Inl IndexError"
  by (simp add: get_band_def backend_read_def load_data_def close_data_def set_mask_def
      neon_scene_def demo_platform_def HyTools_def py_index_def upt_conv_Cons
      index_by_mask_def bool_index_def)

subsection \<open>Pixel reads\<close>

lemma neon_spectra_in_range:
  "\<forall>(l, c) \<in> set lcs. 0 \<le> l \<and> l < int L \<and> 0 \<le> c \<and> c < int C \<Longrightarrow>
   neon_spectra (L, C, B) d lcs =
     Inr (map (\<lambda>(l, c). map (\<lambda>b. d (nat l) (nat c) b) [0..<B]) lcs)"
  by (induction lcs) (auto simp: py_index_def)

lemma envi_spectra_in_range:
  "\<forall>(l, c) \<in> set lcs. 0 \<le> l \<and> l < int L \<and> 0 \<le> c \<and> c < int C \<Longrightarrow>
   envi_spectra (L, C, B) g lcs =
     Inr (map (\<lambda>(l, c). map (\<lambda>b. g (nat l) (nat c) b) [0..<B]) lcs)"
  by (induction lcs) (auto simp: in_range_def)

text \<open>
  On the container backend the spectra of a non-empty list of pixels inside the raster
  come back as the rows of a 2-D array, in the order of the pairs.
\<close>

lemma neon_pixels_pairing:
  assumes "\<forall>(l, c) \<in> set (zip ls cs). 0 \<le> l \<and> l < int L \<and> 0 \<le> c \<and> c < int C"
    and "zip ls cs \<noteq> []"
  shows "neon_pixels ls cs (Some (Dataset (L, C, B) d)) =
     Inr (Array2 (map (\<lambda>(l, c). map (\<lambda>b. d (nat l) (nat c) b) [0..<B]) (zip ls cs)))"
  using neon_spectra_in_range[OF assms(1), of B d] assms(2)
  by (cases "zip ls cs") simp_all

lemma get_pixels_order_example:
  "get_pixels demo_platform [3, 1] [2, 4] wide_scene =
     (Inr (Array2 [[[3, 2]], [[1, 4]]]), wide_scene)"
  by (simp add: get_pixels_def backend_read_def load_data_def close_data_def
      wide_scene_def demo_platform_def HyTools_def py_index_def)

text \<open>
  C9 fails on the container backend for empty index lists: the empty list of spectra
  is turned into an array by \<open>np.array\<close>, which is 1-D of shape (0,) and not a 2-D
  (0, bands) array.
\<close>

theorem get_pixels_empty:
  "get_pixels demo_platform [] [] neon_scene = (Inr (Array1 []), neon_scene)"
  by (simp add: get_pixels_def backend_read_def load_data_def close_data_def
      neon_scene_def demo_platform_def HyTools_def)


subsection \<open>Opening with an unrecognized kind\<close>





subsection \<open>Chunk traversal: the tiles\<close>

lemma py_slice_inside:
  "x0 \<le> x1 \<Longrightarrow> x1 \<le> n \<Longrightarrow> py_slice n (int x0) (int x1) = [x0..<x1]"
  by (simp add: py_slice_def slice_clip_def min_def)

lemma neon_chunk_window:
  assumes "x0 \<le> x1" "x1 \<le> C" "y0 \<le> y1" "y1 \<le> L"
  shows "neon_chunk (int x0) (int x1) (int y0) (int y1) (Some (Dataset (L, C, B) d)) =
           Inr (window d B x0 x1 y0 y1)"
  using assms by (simp add: py_slice_inside window_def)

lemma envi_chunk_window:
  assumes "x0 \<le> x1" "x1 \<le> C" "y0 \<le> y1" "y1 \<le> L" and "raster_dims t sh = (L, C, B)"
  shows "envi_read_chunk (int x0) (int x1) (int y0) (int y1) (Some (Memmap (Some sh) buf)) (Some t) =
           Inr (window (\<lambda>l c b. buf (flat_index t (raster_dims t sh) l c b)) B x0 x1 y0 y1)"
  using assms by (simp add: envi_read_chunk_def window_def)

lemma byteswap_window: "byteswap (window d B x0 x1 y0 y1) = window (\<lambda>l c b. rev (d l c b)) B x0 x1 y0 y1"
  by (simp add: window_def comp_def)

lemma tile_size_window:
  assumes "y0 < y1"
  shows "tile_size (Inr (window d B x0 x1 y0 y1)) = Some (y1 - y0, x1 - x0)"
proof -
  have u: "[y0..<y1] = y0 # [Suc y0..<y1]" using assms by (simp add: upt_conv_Cons)
  show ?thesis
    unfolding window_def u using assms by (simp add: list_all_iff)
qed

lemma nine_tiles_sizes:
  "map (\<lambda>(u, c). (tile_size u, c)) (nine_tiles d B) =
     [(Some (100, 100), False), (Some (100, 100), False), (Some (100, 50), False),
      (Some (100, 100), False), (Some (100, 100), False), (Some (100, 50), False),
      (Some (50, 100), False), (Some (50, 100), False), (Some (50, 50), True)]"
  by (simp add: nine_tiles_def tile_size_window)

lemma get_chunk_neon_window:
  assumes "load_data p ''r'' h = (Inr (), h1)" and "file_type h = Some ''neon''"
    and "data h1 = Some (Dataset (L, C, B) d)"
    and "x0 \<le> x1" "x1 \<le> C" "y0 \<le> y1" "y1 \<le> L"
  shows "fst (get_chunk p (int x0) (int x1) (int y0) (int y1) h) = Inr (window d B x0 x1 y0 y1)"
proof -
  have "neon_chunk (int x0) (int x1) (int y0) (int y1) (data h1) = Inr (window d B x0 x1 y0 y1)"
    unfolding assms(3) using assms(4-) by (rule neon_chunk_window)
  with assms(1,2) have "backend_read p ''chunk'' (neon_chunk (int x0) (int x1) (int y0) (int y1))
      (envi_read_chunk (int x0) (int x1) (int y0) (int y1)) h = (Inr (window d B x0 x1 y0 y1), released h)"
    by (rule backend_read_neon)
  then show ?thesis by (simp add: get_chunk_def)
qed

lemma get_chunk_envi_window:
  assumes "load_data p ''r'' h = (Inr (), h1)" and "file_type h = Some ''envi''"
    and "data h1 = Some (Memmap (Some sh) buf)" and "interleave h1 = Some t"
    and "raster_dims t sh = (L, C, B)"
    and "x0 \<le> x1" "x1 \<le> C" "y0 \<le> y1" "y1 \<le> L"
  shows "fst (get_chunk p (int x0) (int x1) (int y0) (int y1) h) =
           Inr (window (corrected_view p h t sh buf) B x0 x1 y0 y1)"
proof -
  let ?g = "\<lambda>l c b. buf (flat_index t (raster_dims t sh) l c b)"
  have "envi_read_chunk (int x0) (int x1) (int y0) (int y1) (data h1) (interleave h1) =
          Inr (window ?g B x0 x1 y0 y1)"
    using assms(3-) by (simp add: envi_chunk_window)
  with assms(1,2) have "backend_read p ''chunk'' (neon_chunk (int x0) (int x1) (int y0) (int y1))
      (envi_read_chunk (int x0) (int x1) (int y0) (int y1)) h =
      (Inr (if endianness h = Some (byteorder p) then window ?g B x0 x1 y0 y1
            else byteswap (window ?g B x0 x1 y0 y1)), released h)"
    by (rule backend_read_envi)
  moreover have "(if endianness h = Some (byteorder p) then window ?g B x0 x1 y0 y1
            else byteswap (window ?g B x0 x1 y0 y1)) = window (corrected_view p h t sh buf) B x0 x1 y0 y1"
    by (simp add: byteswap_window corrected_view_def[abs_def])
  ultimately show ?thesis by (simp add: get_chunk_def)
qed

text \<open>
  C1. Over a raster with 250 lines and 250 columns whose data handle opens, nine
  successive calls of \<open>read_next\<close> on a chunk cursor with chunk size (100, 100) return,
  on either backend, the nine tiles of the 3 by 3 tiling in row-major order, holding
  the raster's pixels of their window; the tiles have 100x100, 100x100, 100x50, 100x100,
  100x100, 100x50, 50x100, 50x100 and 50x50 rows and columns, and \<open>complete\<close> is false
  after each of the first eight calls and true after the ninth.
\<close>

theorem chunk_tiles_250:
  assumes "lines h = Some 250" and "columns h = Some 250"
    and "load_data p ''r'' h = (Inr (), h1)"
  shows "(file_type h = Some ''neon'' \<longrightarrow> data h1 = Some (Dataset (250, 250, B) d) \<longrightarrow>
            fst (read_next_n p 9 (Iterator ''chunk'' (Some (100, 100)), h)) = nine_tiles d B
            \<and> map (\<lambda>(u, c). (tile_size u, c))
                (fst (read_next_n p 9 (Iterator ''chunk'' (Some (100, 100)), h))) =
              [(Some (100, 100), False), (Some (100, 100), False), (Some (100, 50), False),
            (Some (100, 100), False), (Some (100, 100), False), (Some (100, 50), False),
            (Some (50, 100), False), (Some (50, 100), False), (Some (50, 50), True)])
       \<and> (file_type h = Some ''envi'' \<longrightarrow> data h1 = Some (Memmap (Some sh) buf) \<longrightarrow>
            interleave h1 = Some t \<longrightarrow> raster_dims t sh = (250, 250, B) \<longrightarrow>
            fst (read_next_n p 9 (Iterator ''chunk'' (Some (100, 100)), h)) =
              nine_tiles (corrected_view p h t sh buf) B
            \<and> map (\<lambda>(u, c). (tile_size u, c))
                (fst (read_next_n p 9 (Iterator ''chunk'' (Some (100, 100)), h))) =
              [(Some (100, 100), False), (Some (100, 100), False), (Some (100, 50), False),
            (Some (100, 100), False), (Some (100, 100), False), (Some (100, 50), False),
            (Some (50, 100), False), (Some (50, 100), False), (Some (50, 50), True)])"
proof (intro conjI impI)
  assume n: "file_type h = Some ''neon''" "data h1 = Some (Dataset (250, 250, B) d)"
  have w: "fst (get_chunk p (int x0) (int x1) (int y0) (int y1) h) = Inr (window d B x0 x1 y0 y1)"
    if "x0 \<le> x1" "x1 \<le> 250" "y0 \<le> y1" "y1 \<le> 250" for x0 x1 y0 y1
    using assms(3) n that by (rule get_chunk_neon_window)
  show r: "fst (read_next_n p 9 (Iterator ''chunk'' (Some (100, 100)), h)) = nine_tiles d B"
    using chunk_reads_250[OF assms(1,2), of p]
      w[of 0 100 0 100] w[of 100 200 0 100] w[of 200 250 0 100]
      w[of 0 100 100 200] w[of 100 200 100 200] w[of 200 250 100 200]
      w[of 0 100 200 250] w[of 100 200 200 250] w[of 200 250 200 250]
    by (simp add: nine_tiles_def)
  show "map (\<lambda>(u, c). (tile_size u, c))
          (fst (read_next_n p 9 (Iterator ''chunk'' (Some (100, 100)), h))) =
        [(Some (100, 100), False), (Some (100, 100), False), (Some (100, 50), False),
            (Some (100, 100), False), (Some (100, 100), False), (Some (100, 50), False),
            (Some (50, 100), False), (Some (50, 100), False), (Some (50, 50), True)]"
    unfolding r by (rule nine_tiles_sizes)
next
  assume e: "file_type h = Some ''envi''" "data h1 = Some (Memmap (Some sh) buf)"
    "interleave h1 = Some t" "raster_dims t sh = (250, 250, B)"
  have w: "fst (get_chunk p (int x0) (int x1) (int y0) (int y1) h) =
             Inr (window (corrected_view p h t sh buf) B x0 x1 y0 y1)"
    if "x0 \<le> x1" "x1 \<le> 250" "y0 \<le> y1" "y1 \<le> 250" for x0 x1 y0 y1
    using assms(3) e that by (rule get_chunk_envi_window)
  show r: "fst (read_next_n p 9 (Iterator ''chunk'' (Some (100, 100)), h)) =
          nine_tiles (corrected_view p h t sh buf) B"
    using chunk_reads_250[OF assms(1,2), of p]
      w[of 0 100 0 100] w[of 100 200 0 100] w[of 200 250 0 100]
      w[of 0 100 100 200] w[of 100 200 100 200] w[of 200 250 100 200]
      w[of 0 100 200 250] w[of 100 200 200 250] w[of 200 250 200 250]
    by (simp add: nine_tiles_def)
  show "map (\<lambda>(u, c). (tile_size u, c))
          (fst (read_next_n p 9 (Iterator ''chunk'' (Some (100, 100)), h))) =
        [(Some (100, 100), False), (Some (100, 100), False), (Some (100, 50), False),
            (Some (100, 100), False), (Some (100, 100), False), (Some (100, 50), False),
            (Some (50, 100), False), (Some (50, 100), False), (Some (50, 50), True)]"
    unfolding r by (rule nine_tiles_sizes)
qed

lemma wide_scene_load:
  "load_data demo_platform ''r'' wide_scene = (Inr (), snd (load_data demo_platform ''r'' wide_scene))"
  "data (snd (load_data demo_platform ''r'' wide_scene)) =
     Some (Dataset (250, 250, 1) (\<lambda>l c b. [word_of_nat l, word_of_nat c]))"
  by (simp_all add: load_data_def wide_scene_def demo_platform_def HyTools_def)

lemma wide_flat_load:
  "load_data demo_platform ''r'' wide_flat = (Inr (), snd (load_data demo_platform ''r'' wide_flat))"
  "data (snd (load_data demo_platform ''r'' wide_flat)) =
     Some (Memmap (Some (250, 250, 1)) (\<lambda>i. [word_of_nat (i div 250), word_of_nat (i mod 250)]))"
  "interleave (snd (load_data demo_platform ''r'' wide_flat)) = Some BIP"
  by (simp_all add: load_data_def wide_flat_def demo_platform_def HyTools_def)

theorem chunk_tiles_250_witness:
  "fst (read_next_n demo_platform 9 (Iterator ''chunk'' (Some (100, 100)), wide_scene)) =
     nine_tiles (\<lambda>l c b. [word_of_nat l, word_of_nat c]) 1
   \<and> map (\<lambda>(u, c). (tile_size u, c))
       (fst (read_next_n demo_platform 9 (Iterator ''chunk'' (Some (100, 100)), wide_scene))) =
     [(Some (100, 100), False), (Some (100, 100), False), (Some (100, 50), False),
            (Some (100, 100), False), (Some (100, 100), False), (Some (100, 50), False),
            (Some (50, 100), False), (Some (50, 100), False), (Some (50, 50), True)]
   \<and> fst (read_next_n demo_platform 9 (Iterator ''chunk'' (Some (100, 100)), wide_flat)) =
     nine_tiles (corrected_view demo_platform wide_flat BIP (250, 250, 1)
       (\<lambda>i. [word_of_nat (i div 250), word_of_nat (i mod 250)])) 1
   \<and> map (\<lambda>(u, c). (tile_size u, c))
       (fst (read_next_n demo_platform 9 (Iterator ''chunk'' (Some (100, 100)), wide_flat))) =
     [(Some (100, 100), False), (Some (100, 100), False), (Some (100, 50), False),
            (Some (100, 100), False), (Some (100, 100), False), (Some (100, 50), False),
            (Some (50, 100), False), (Some (50, 100), False), (Some (50, 50), True)]
   \<and> corrected_view demo_platform wide_flat BIP (250, 250, 1)
       (\<lambda>i. [word_of_nat (i div 250), word_of_nat (i mod 250)]) 203 249 0 = [203, 249]"
proof -
  have s: "lines wide_scene = Some 250" "columns wide_scene = Some 250"
    "file_type wide_scene = Some ''neon''"
    by (simp_all add: wide_scene_def)
  have f: "lines wide_flat = Some 250" "columns wide_flat = Some 250"
    "file_type wide_flat = Some ''envi''" "raster_dims BIP (250, 250, 1) = (250, 250, 1)"
    by (simp_all add: wide_flat_def raster_dims_def)
  have v: "corrected_view demo_platform wide_flat BIP (250, 250, 1)
       (\<lambda>i. [word_of_nat (i div 250), word_of_nat (i mod 250)]) 203 249 0 = [203, 249]"
    by (simp add: corrected_view_def wide_flat_def demo_platform_def raster_dims_def flat_index_def)
  show ?thesis
    using chunk_tiles_250[OF s(1,2) wide_scene_load(1), of 1 "\<lambda>l c b. [word_of_nat l, word_of_nat c]"]
      chunk_tiles_250[OF f(1,2) wide_flat_load(1), where sh="(250, 250, 1)" and t=BIP and B=1
        and buf="\<lambda>i. [word_of_nat (i div 250), word_of_nat (i mod 250)]"]
      s(3) f(3,4) wide_scene_load(2) wide_flat_load(2,3) v
    by (simp add: nine_tiles_sizes)
qed


subsection \<open>Float64 arithmetic\<close>

lemma round_even_int: "round_even (of_int n) = n"
  by (simp add: round_even_def)

lemma round_even_near: "\<bar>of_int (round_even q) - q\<bar> \<le> 1 / 2"
  unfolding round_even_def Let_def by (auto simp: abs_if) linarith+

lemma round64_not_NaN: "round64 x \<noteq> NaN"
  by (simp add: round64_def Let_def)

lemma distance_not_NaN: "fabs (fsub (Finite a) (Finite b)) \<noteq> NaN"
  using round64_not_NaN[of "a - b"] by (cases "round64 (a - b)") simp_all

text \<open>Rounding a value between \<open>2^k\<close> and \<open>2^(k+1)\<close>, for \<open>k\<close> up to 52.\<close>

lemma round64_normal:
  assumes "2 ^ k \<le> \<bar>x\<bar>" and "\<bar>x\<bar> < 2 ^ Suc k" and "k \<le> 52"
  shows "round64 x = Finite (of_int (round_even (x * 2 ^ (52 - k))) / 2 ^ (52 - k))"
proof -
  have "(0::real) < 2 ^ k" by simp
  then have x0: "x \<noteq> 0" using assms(1) by linarith
  have pos: "0 < \<bar>x\<bar>" using x0 by simp
  have "2 powr (of_int (int k)) \<le> \<bar>x\<bar> \<and> \<bar>x\<bar> < 2 powr (of_int (int k + 1))"
    using assms(1,2) by (simp add: powr_realpow powr_add)
  then have fl: "\<lfloor>log 2 \<bar>x\<bar>\<rfloor> = int k"
    using floor_log_eq_powr_iff[of "\<bar>x\<bar>" 2 "int k"] pos by simp
  have e: "max (\<lfloor>log 2 \<bar>x\<bar>\<rfloor> - 52) (- 1074) = - int (52 - k)"
    using fl assms(3) by simp
  have pw: "(2::real) powr of_int (- int (52 - k)) = 1 / 2 ^ (52 - k)"
    by (simp add: powr_minus powr_realpow inverse_eq_divide)
  let ?m = "52 - k"
  let ?n = "round_even (x * 2 ^ ?m)"
  let ?y = "of_int ?n / (2::real) ^ ?m"
  have "\<bar>of_int ?n - x * 2 ^ ?m\<bar> \<le> 1 / 2" by (rule round_even_near)
  then have "\<bar>real_of_int ?n\<bar> \<le> \<bar>x * 2 ^ ?m\<bar> + 1 / 2" by linarith
  then have n1: "\<bar>real_of_int ?n\<bar> \<le> \<bar>x\<bar> * 2 ^ ?m + 1 / 2" by (simp add: abs_mult)
  have b1: "\<bar>x\<bar> * 2 ^ ?m \<le> 2 ^ Suc k * 2 ^ ?m"
    using assms(2) by (intro mult_right_mono) simp_all
  have "Suc k + ?m = 53" using assms(3) by simp
  then have "(2::real) ^ (Suc k + ?m) = 2 ^ 53" by (simp only:)
  then have b2: "(2::real) ^ Suc k * 2 ^ ?m = 2 ^ 53" by (simp only: power_add)
  have n2: "\<bar>real_of_int ?n\<bar> \<le> 2 ^ 53 + 1 / 2" using n1 b1 b2 by linarith
  have "1 \<le> (2::real) ^ ?m" by simp
  then have "\<bar>real_of_int ?n\<bar> * 1 \<le> \<bar>real_of_int ?n\<bar> * 2 ^ ?m"
    by (intro mult_left_mono) simp_all
  then have "\<bar>?y\<bar> \<le> \<bar>real_of_int ?n\<bar>"
    by (simp add: abs_divide field_simps)
  then have "\<bar>?y\<bar> \<le> 2 ^ 53 + 1 / 2" using n2 by linarith
  moreover have "(2::real) ^ 53 + 1 / 2 < 2 ^ 1024" by simp
  ultimately have "\<not> \<bar>?y\<bar> \<ge> 2 ^ 1024" by linarith
  then show ?thesis
    using x0 by (simp add: round64_def Let_def e pw del: of_int_minus)
qed

lemma round64_int:
  assumes "2 ^ k \<le> \<bar>n\<bar>" and "\<bar>n\<bar> < 2 ^ Suc k" and "k \<le> 52"
  shows "round64 (of_int n) = Finite (of_int n)"
proof -
  have a: "2 ^ k \<le> \<bar>real_of_int n\<bar>" "\<bar>real_of_int n\<bar> < 2 ^ Suc k"
    using assms(1,2) by (metis of_int_abs of_int_le_iff of_int_numeral of_int_power,
        metis of_int_abs of_int_less_iff of_int_numeral of_int_power)
  have "real_of_int n * 2 ^ (52 - k) = of_int (n * 2 ^ (52 - k))" by simp
  then have "round_even (real_of_int n * 2 ^ (52 - k)) = n * 2 ^ (52 - k)"
    using round_even_int by metis
  then show ?thesis using round64_normal[OF a assms(3)] by simp
qed

lemma round64_zero: "round64 0 = Finite 0"
  by (simp add: round64_def)


subsection \<open>Wavelength resolution\<close>

lemma amax_Finite: "vs \<noteq> [] \<Longrightarrow> amax (map Finite vs) = Finite (Max (set vs))"
proof (induction vs rule: induct_list012)
  case (3 x y zs)
  define M where "M = Max (set (y # zs))"
  have ih: "amax (Finite y # map Finite zs) = Finite M" using 3 by (simp add: M_def)
  have "Max (insert x (set (y # zs))) = max x (Max (set (y # zs)))"
    by (rule Max_insert) simp_all
  then have e: "Max (set (x # y # zs)) = max x M" by (simp only: list.set(2) M_def)
  show ?case
    unfolding e list.map amax.simps Let_def ih by (simp add: max_def)
qed simp_all

lemma amin_Finite: "vs \<noteq> [] \<Longrightarrow> amin (map Finite vs) = Finite (Min (set vs))"
proof (induction vs rule: induct_list012)
  case (3 x y zs)
  define M where "M = Min (set (y # zs))"
  have ih: "amin (Finite y # map Finite zs) = Finite M" using 3 by (simp add: M_def)
  have "Min (insert x (set (y # zs))) = min x (Min (set (y # zs)))"
    by (rule Min_insert) simp_all
  then have e: "Min (set (x # y # zs)) = min x M" by (simp only: list.set(2) M_def)
  show ?case
    unfolding e list.map amin.simps Let_def ih by (simp add: min_def)
qed simp_all

lemma fless_irrefl: "\<not> fless a a"
  by (cases a) simp_all

lemma fless_asym: "fless a b \<Longrightarrow> \<not> fless b a"
  by (cases a; cases b) simp_all

lemma fless_trans: "fless a b \<Longrightarrow> fless b c \<Longrightarrow> fless a c"
  by (cases a; cases b; cases c) simp_all

lemma fless_total: "a \<noteq> NaN \<Longrightarrow> b \<noteq> NaN \<Longrightarrow> fless a b \<or> a = b \<or> fless b a"
  by (cases a; cases b) auto

text \<open>
  On values without NaN, \<open>argmin\<close> gives the first index of a least value.
\<close>

lemma argmin_least:
  assumes "xs \<noteq> []" and "NaN \<notin> set xs"
  shows "argmin xs < length xs
       \<and> (\<forall>j < length xs. \<not> fless (xs ! j) (xs ! argmin xs))
       \<and> (\<forall>j < argmin xs. fless (xs ! argmin xs) (xs ! j))"
  using assms
proof (induction xs rule: argmin.induct)
  case 1
  then show ?case by simp
next
  case (2 x)
  then show ?case by (simp add: fless_irrefl)
next
  case (3 x y ys)
  let ?r = "y # ys"
  let ?i = "argmin ?r"
  let ?m = "?r ! ?i"
  have ih: "?i < length ?r" "\<forall>j < length ?r. \<not> fless (?r ! j) ?m" "\<forall>j < ?i. fless ?m (?r ! j)"
    using "3.IH" "3.prems" by simp_all
  have xn: "x \<noteq> NaN" using "3.prems" by auto
  have mn: "?m \<noteq> NaN" using ih(1) "3.prems"(2) by (metis list.set_intros(2) nth_mem)
  have rn: "?r ! j \<noteq> NaN" if "j < length ?r" for j
    using that "3.prems"(2) by (metis list.set_intros(2) nth_mem)
  show ?case
  proof (cases "fless ?m x")
    case True
    have a: "argmin (x # ?r) = Suc ?i" using True xn mn by (simp add: Let_def)
    have b: "\<not> fless ((x # ?r) ! j) ?m" if "j < length (x # ?r)" for j
      using that ih(2) True fless_asym by (cases j) auto
    have c: "fless ?m ((x # ?r) ! j)" if "j < Suc ?i" for j
      using that ih(3) True by (cases j) auto
    show ?thesis unfolding a using ih(1) b c by simp
  next
    case False
    have a: "argmin (x # ?r) = 0" using False xn mn by (simp add: Let_def)
    have b: "\<not> fless ((x # ?r) ! j) x" if "j < length (x # ?r)" for j
    proof (cases j)
      case 0
      then show ?thesis by (simp add: fless_irrefl)
    next
      case (Suc k)
      then have k: "k < length ?r" using that by simp
      show ?thesis
      proof
        assume "fless ((x # ?r) ! j) x"
        then have l: "fless (?r ! k) x" using Suc by simp
        have "\<not> fless (?r ! k) ?m" using ih(2) k by blast
        then have "?m = ?r ! k \<or> fless ?m (?r ! k)"
          using fless_total[OF mn rn[OF k]] by blast
        then have "fless ?m x" using l fless_trans by metis
        then show False using False by simp
      qed
    qed
    show ?thesis unfolding a using b by simp
  qed
qed

text \<open>
  C4, as the code has it. With a non-empty array of finite wavelengths and a finite query
  \<open>w\<close> between its least and greatest entry, \<open>wave_to_band\<close> gives, and \<open>get_wave\<close> reads
  through \<open>get_band\<close>, the first band whose distance from \<open>w\<close> as computed in float64,
  the rounded difference without its sign, is least; with \<open>w\<close> outside, both print the
  out-of-range message and give no result, leaving the handle as it is.
\<close>

theorem nearest_computed_wavelength:
  assumes "wavelengths h = NdArray (map Finite vs)" and "vs \<noteq> []"
  shows "(Min (set vs) \<le> w \<and> w \<le> Max (set vs) \<longrightarrow>
           (let ds = map (\<lambda>v. fabs (fsub (Finite v) (Finite w))) vs; i = argmin ds in
              i < length vs \<and>
              (\<forall>j < length vs. fle (ds ! i) (ds ! j)) \<and>
              (\<forall>j < i. fless (ds ! i) (ds ! j)) \<and>
              wave_to_band (Finite w) h = (Inr (Some i), []) \<and>
              get_wave p (Finite w) m h =
                (case get_band p (int i) m h of
                   (Inl e, s) \<Rightarrow> (Inl e, s, [])
                 | (Inr band, s) \<Rightarrow> (Inr (Some band), s, []))))
       \<and> (\<not> (Min (set vs) \<le> w \<and> w \<le> Max (set vs)) \<longrightarrow>
            wave_to_band (Finite w) h = (Inr None, [''Input wavelength outside image range!'']) \<and>
            get_wave p (Finite w) m h =
              (Inr None, h, [''Input wavelength outside wavelength range!'']))"
proof -
  let ?ws = "map Finite vs"
  let ?ds = "map (\<lambda>v. fabs (fsub (Finite v) (Finite w))) vs"
  have ds: "map (\<lambda>x. fabs (fsub x (Finite w))) ?ws = ?ds" by (simp add: comp_def)
  have ne: "?ws \<noteq> []" using assms(2) by simp
  have g: "(fless (amax ?ws) (Finite w) \<or> fless (Finite w) (amin ?ws)) =
           (\<not> (Min (set vs) \<le> w \<and> w \<le> Max (set vs)))"
    unfolding amax_Finite[OF assms(2)] amin_Finite[OF assms(2)] fless.simps
    using not_le by blast
  have dn: "?ds \<noteq> []" using assms(2) by simp
  have nn: "NaN \<notin> set ?ds"
  proof
    assume "NaN \<in> set ?ds"
    then obtain v where "NaN = fabs (fsub (Finite v) (Finite w))" by auto
    then show False using distance_not_NaN[of v w] by simp
  qed
  note L = argmin_least[OF dn nn]
  have i: "argmin ?ds < length vs" using L by simp
  have le: "\<forall>j < length vs. fle (?ds ! argmin ?ds) (?ds ! j)"
  proof (intro allI impI)
    fix j assume j: "j < length vs"
    have "?ds ! j \<noteq> NaN" "?ds ! argmin ?ds \<noteq> NaN"
      using nn j i by (metis length_map nth_mem)+
    moreover have "\<forall>j < length ?ds. \<not> fless (?ds ! j) (?ds ! argmin ?ds)" using L by blast
    then have "\<not> fless (?ds ! j) (?ds ! argmin ?ds)" using j by (metis length_map)
    ultimately show "fle (?ds ! argmin ?ds) (?ds ! j)" by (simp add: fle_def)
  qed
  have first: "\<forall>j < argmin ?ds. fless (?ds ! argmin ?ds) (?ds ! j)" using L by blast
  show ?thesis
  proof (intro conjI impI)
    assume r: "Min (set vs) \<le> w \<and> w \<le> Max (set vs)"
    show "let ds = ?ds; i = argmin ds in
              i < length vs \<and>
              (\<forall>j < length vs. fle (ds ! i) (ds ! j)) \<and>
              (\<forall>j < i. fless (ds ! i) (ds ! j)) \<and>
              wave_to_band (Finite w) h = (Inr (Some i), []) \<and>
              get_wave p (Finite w) m h =
                (case get_band p (int i) m h of
                   (Inl e, s) \<Rightarrow> (Inl e, s, [])
                 | (Inr band, s) \<Rightarrow> (Inr (Some band), s, []))"
      unfolding Let_def using i le first r g ne
      by (simp add: wave_to_band_def get_wave_def assms(1) comp_def Let_def)
  next
    assume o: "\<not> (Min (set vs) \<le> w \<and> w \<le> Max (set vs))"
    show "wave_to_band (Finite w) h = (Inr None, [''Input wavelength outside image range!''])"
      using o g ne by (simp add: wave_to_band_def assms(1))
    show "get_wave p (Finite w) m h =
            (Inr None, h, [''Input wavelength outside wavelength range!''])"
      using o g ne by (simp add: get_wave_def assms(1))
  qed
qed


subsection \<open>Wavelength resolution: examples\<close>

lemma four_bands_distances:
  "round64 (- 110) = Finite (- 110)" "round64 (- 10) = Finite (- 10)"
  "round64 90 = Finite 90" "round64 190 = Finite 190"
  using round64_int[of 6 "- 110"] round64_int[of 3 "- 10"] round64_int[of 6 90]
    round64_int[of 7 190]
  by simp_all

theorem nearest_computed_wavelength_witness:
  "wave_to_band (Finite 560) four_bands = (Inr (Some 1), [])
   \<and> get_wave demo_platform (Finite 560) None four_bands =
       (Inr (Some (Array2 [[[1], [3]], [[5], [7]]])), four_bands, [])
   \<and> wave_to_band (Finite 1000) four_bands =
       (Inr None, [''Input wavelength outside image range!''])
   \<and> get_wave demo_platform (Finite 1000) None four_bands =
       (Inr None, four_bands, [''Input wavelength outside wavelength range!''])"
proof -
  have w: "wavelengths four_bands = NdArray (map Finite [450, 550, 650, 750])"
    by (simp add: four_bands_def)
  have ne: "[450, 550, 650, 750 :: real] \<noteq> []" by simp
  have a: "argmin (map (\<lambda>v. fabs (fsub (Finite v) (Finite 560))) [450, 550, 650, 750]) = 1"
    by (simp add: four_bands_distances Let_def)
  have g: "get_band demo_platform 1 None four_bands =
             (Inr (Array2 [[[1], [3]], [[5], [7]]]), four_bands)"
    by (simp add: get_band_def backend_read_def load_data_def close_data_def four_bands_def
        neon_scene_def demo_platform_def HyTools_def py_index_def upt_conv_Cons)
  have r1: "Min (set [450, 550, 650, 750 :: real]) \<le> 560 \<and> (560 :: real) \<le> Max (set [450, 550, 650, 750])"
    by simp
  have r2: "\<not> (Min (set [450, 550, 650, 750 :: real]) \<le> 1000 \<and> (1000 :: real) \<le> Max (set [450, 550, 650, 750]))"
    by simp
  from nearest_computed_wavelength[OF w ne, of 560 demo_platform None] r1
  have t1: "wave_to_band (Finite 560) four_bands = (Inr (Some 1), [])
      \<and> get_wave demo_platform (Finite 560) None four_bands =
          (case get_band demo_platform (int 1) None four_bands of
             (Inl e, s) \<Rightarrow> (Inl e, s, [])
           | (Inr band, s) \<Rightarrow> (Inr (Some band), s, []))"
    unfolding Let_def a by blast
  from nearest_computed_wavelength[OF w ne, of 1000 demo_platform None] r2
  have t2: "wave_to_band (Finite 1000) four_bands =
        (Inr None, [''Input wavelength outside image range!''])
      \<and> get_wave demo_platform (Finite 1000) None four_bands =
        (Inr None, four_bands, [''Input wavelength outside wavelength range!''])"
    by blast
  show ?thesis using t1 t2 g by simp
qed

lemma doubles_representable:
  "round64 d1588_3 = Finite d1588_3" "round64 d412_3 = Finite d412_3"
  "round64 d1000_3 = Finite d1000_3"
proof -
  show "round64 d1588_3 = Finite d1588_3"
    using round64_normal[of 10 d1588_3] round_even_int[of 6985417273586483]
    by (simp add: d1588_3_def)
  show "round64 d412_3 = Finite d412_3"
    using round64_normal[of 8 d412_3] round_even_int[of 7253258306112717]
    by (simp add: d412_3_def)
  show "round64 d1000_3 = Finite d1000_3"
    using round64_normal[of 9 d1000_3] round_even_int[of 8798731850114662]
    by (simp add: d1000_3_def)
qed

lemma tie_distances:
  "round64 (d1588_3 - d1000_3) = Finite 588"
  "round64 (d412_3 - d1000_3) = Finite (- 588)"
proof -
  have "d1588_3 - d1000_3 = 588" by (simp add: d1588_3_def d1000_3_def)
  then show "round64 (d1588_3 - d1000_3) = Finite 588"
    using round64_int[of 9 588] by simp
  have e: "d412_3 - d1000_3 = - (10344205394116607 / 2 ^ 44)"
    by (simp add: d412_3_def d1000_3_def)
  have r: "round_even (- (10344205394116607 / 2)) = - 5172102697058304"
    by (simp add: round_even_def Let_def)
  have "round64 (- (10344205394116607 / 2 ^ 44)) = Finite (- 588)"
    using round64_normal[of 9 "- (10344205394116607 / 2 ^ 44)"] r by simp
  then show "round64 (d412_3 - d1000_3) = Finite (- 588)"
    using e by simp
qed

text \<open>
  With the doubles 1588.3 and 412.3 as wavelengths and the query 1000.3, which lies
  between them, band 1 is strictly nearer, but both computed distances are 588.0 and
  band 0 is returned. A NaN query, which is not inside the interval, is not reported
  as out of range: band 0 is returned.
\<close>

theorem nearest_wavelength_counterexample:
  "round64 d1588_3 = Finite d1588_3 \<and> round64 d412_3 = Finite d412_3
   \<and> round64 d1000_3 = Finite d1000_3
   \<and> wavelengths two_bands = NdArray [Finite d1588_3, Finite d412_3]
   \<and> d412_3 \<le> d1000_3 \<and> d1000_3 \<le> d1588_3
   \<and> \<bar>d412_3 - d1000_3\<bar> < \<bar>d1588_3 - d1000_3\<bar>
   \<and> wave_to_band (Finite d1000_3) two_bands = (Inr (Some 0), [])
   \<and> wave_to_band NaN two_bands = (Inr (Some 0), [])"
proof -
  have o: "d412_3 \<le> d1000_3" "d1000_3 \<le> d1588_3" "d412_3 < d1588_3"
    "\<bar>d412_3 - d1000_3\<bar> < \<bar>d1588_3 - d1000_3\<bar>"
    by (simp_all add: d1588_3_def d412_3_def d1000_3_def)
  have w: "wavelengths two_bands = NdArray [Finite d1588_3, Finite d412_3]"
    by (simp add: two_bands_def)
  have "wave_to_band (Finite d1000_3) two_bands = (Inr (Some 0), [])"
    using o by (simp add: wave_to_band_def w tie_distances Let_def)
  moreover have "wave_to_band NaN two_bands = (Inr (Some 0), [])"
    using o by (simp add: wave_to_band_def w Let_def)
  ultimately show ?thesis using o w doubles_representable by simp
qed

end
